theory Spec2Isabelle
  imports Main "HOL-Library.Sublist" "HOL-Library.Multiset" "HOL-Library.Word"
begin

section \<open>Text primitives of the C++ standard library used by Application.cpp\<close>

text \<open>
  A \<open>std::string\<close> is a \<open>string\<close> (a list of bytes). \<open>std::endl\<close> writes the
  newline character (the flush is not observable here).
\<close>

definition endl :: string where
  "endl = [CHR 0x0A]"

text \<open>
  \<open>line.find(pat)\<close>: the index of the first occurrence of \<open>pat\<close> in \<open>line\<close>;
  \<open>std::string::npos\<close> is \<open>None\<close>.
\<close>

fun str_find :: "string \<Rightarrow> string \<Rightarrow> nat option" where
  "str_find [] pat = (if pat = [] then Some 0 else None)"
| "str_find (c # cs) pat =
     (if prefix pat (c # cs) then Some 0 else map_option Suc (str_find cs pat))"

text \<open>
  An input file stream is \<open>None\<close> when the file could not be opened (the stream's
  failbit is set from the start) and otherwise holds the bytes not yet read.
  \<open>getline(stream, line)\<close> fails on a stream that is not good or that has no byte
  left; otherwise it extracts the bytes up to the next newline, which it consumes
  and does not store. A last line without a newline is still a line.
\<close>

type_synonym ifstream = "string option"

fun getline :: "ifstream \<Rightarrow> (string \<times> ifstream) option" where
  "getline None = None"
| "getline (Some []) = None"
| "getline (Some (c # cs)) =
     Some (takeWhile (\<lambda>x. x \<noteq> CHR 0x0A) (c # cs),
           Some (drop 1 (dropWhile (\<lambda>x. x \<noteq> CHR 0x0A) (c # cs))))"

section \<open>ParseShader\<close>

record ShaderProgramSource =
  VertexSource :: string
  FragmentSource :: string

datatype ShaderType = NONE | VERTEX | FRAGMENT

text \<open>The enumerators' values: \<open>NONE = -1, VERTEX = 0, FRAGMENT = 1\<close>.\<close>

fun ShaderType_int :: "ShaderType \<Rightarrow> int" where
  "ShaderType_int NONE = - 1"
| "ShaderType_int VERTEX = 0"
| "ShaderType_int FRAGMENT = 1"

text \<open>
  The body of the \<open>while\<close> loop, on the loop's variables: the current \<open>type\<close> and
  the array \<open>ss\<close> of the two string streams, indexed by \<open>(int)type\<close>.
\<close>

definition loop_body :: "ShaderType \<times> string list \<Rightarrow> string \<Rightarrow> ShaderType \<times> string list" where
  "loop_body st line =
     (case st of (type, ss) \<Rightarrow>
        if str_find line ''#shader'' \<noteq> None then
          (if str_find line ''vertex'' \<noteq> None then (VERTEX, ss)
           else if str_find line ''fragment'' \<noteq> None then (FRAGMENT, ss)
           else (type, ss))
        else if type \<noteq> NONE then
          (type, ss[nat (ShaderType_int type) := ss ! nat (ShaderType_int type) @ line @ endl])
        else (type, ss))"

function ParseShader_loop :: "ifstream \<Rightarrow> ShaderType \<times> string list \<Rightarrow> ShaderType \<times> string list" where
  "ParseShader_loop stream st =
     (case getline stream of
        None \<Rightarrow> st
      | Some (line, stream') \<Rightarrow> ParseShader_loop stream' (loop_body st line))"
  by pat_completeness auto
termination
proof (relation "measure (\<lambda>(stream, st). case stream of None \<Rightarrow> 0 | Some s \<Rightarrow> length s)")
  show "wf (measure (\<lambda>(stream, st). case stream of None \<Rightarrow> 0 | Some s \<Rightarrow> length s))"
    by simp
next
  fix stream :: ifstream and st :: "ShaderType \<times> string list" and x2 line stream'
  assume g: "getline stream = Some x2" and x2: "(line, stream') = x2"
  from g x2 obtain c cs where s: "stream = Some (c # cs)"
    and s': "stream' = Some (drop 1 (dropWhile (\<lambda>x. x \<noteq> CHR 0x0A) (c # cs)))"
    by (cases stream rule: getline.cases) auto
  have "length (dropWhile (\<lambda>x. x \<noteq> CHR 0x0A) (c # cs)) \<le> length (c # cs)"
    by (rule length_dropWhile_le)
  then show "((stream', loop_body st line), (stream, st))
      \<in> measure (\<lambda>(stream, st). case stream of None \<Rightarrow> 0 | Some s \<Rightarrow> length s)"
    using s s' by (simp split: if_splits)
qed

declare ParseShader_loop.simps [simp del]

text \<open>
  \<open>ParseShader\<close> takes the file system (a path is mapped to the file's bytes, or to
  \<open>None\<close> when it cannot be opened) and the path.
\<close>

definition ParseShader :: "(string \<Rightarrow> string option) \<Rightarrow> string \<Rightarrow> ShaderProgramSource" where
  "ParseShader files filePath =
     (case ParseShader_loop (files filePath) (NONE, ['''', '''']) of
        (type, ss) \<Rightarrow> \<lparr>VertexSource = ss ! 0, FragmentSource = ss ! 1\<rparr>)"

text \<open>
  The sequence of lines the loop reads from a stream, and the loop run over a
  sequence of lines (the splitter's contract in the specification takes the lines).
\<close>

function read_lines :: "ifstream \<Rightarrow> string list" where
  "read_lines stream =
     (case getline stream of
        None \<Rightarrow> []
      | Some (line, stream') \<Rightarrow> line # read_lines stream')"
  by pat_completeness auto
termination
proof (relation "measure (\<lambda>stream. case stream of None \<Rightarrow> 0 | Some s \<Rightarrow> length s)")
  show "wf (measure (\<lambda>stream. case stream of None \<Rightarrow> 0 | Some s \<Rightarrow> length s))"
    by simp
next
  fix stream :: ifstream and x2 line stream'
  assume g: "getline stream = Some x2" and x2: "(line, stream') = x2"
  from g x2 obtain c cs where s: "stream = Some (c # cs)"
    and s': "stream' = Some (drop 1 (dropWhile (\<lambda>x. x \<noteq> CHR 0x0A) (c # cs)))"
    by (cases stream rule: getline.cases) auto
  have "length (dropWhile (\<lambda>x. x \<noteq> CHR 0x0A) (c # cs)) \<le> length (c # cs)"
    by (rule length_dropWhile_le)
  then show "(stream', stream)
      \<in> measure (\<lambda>stream. case stream of None \<Rightarrow> 0 | Some s \<Rightarrow> length s)"
    using s s' by (simp split: if_splits)
qed

declare read_lines.simps [simp del]

definition split_lines :: "string list \<Rightarrow> ShaderProgramSource" where
  "split_lines lines =
     (case foldl loop_body (NONE, ['''', '''']) lines of
        (type, ss) \<Rightarrow> \<lparr>VertexSource = ss ! 0, FragmentSource = ss ! 1\<rparr>)"

section \<open>The windowing system and the GPU driver\<close>

text \<open>
  GLFW, GLEW and the OpenGL driver are outside the repository. A call to them is
  recorded in the order it is made; what a call returns (or writes through an out
  parameter) is given by the \<open>world\<close>, as a function of the calls made so far, the
  present call included. Nothing is assumed about the driver beyond that.
\<close>

text \<open>
  \<open>unsigned int\<close>, \<open>GLuint\<close> and \<open>GLenum\<close> are 32-bit words; an \<open>int\<close> is a 32-bit
  word in two's complement (\<open>sint\<close> reads it), so \<open>- 1\<close> is the word of all ones.
\<close>

type_synonym GLuint = "32 word"
type_synonym c_int = "32 word"

text \<open>
  The enumerants of the OpenGL and GLEW headers that Application.cpp names, with the
  values the OpenGL registry fixes for them.
\<close>

definition GL_NO_ERROR :: GLuint where "GL_NO_ERROR = 0"
definition GL_FALSE :: GLuint where "GL_FALSE = 0"
definition GLEW_OK :: GLuint where "GLEW_OK = 0"
definition GL_TRIANGLES :: GLuint where "GL_TRIANGLES = 0x0004"
definition GL_INT :: GLuint where "GL_INT = 0x1404"
definition GL_FLOAT :: GLuint where "GL_FLOAT = 0x1406"
definition GL_VERSION :: GLuint where "GL_VERSION = 0x1F02"
definition GL_COLOR_BUFFER_BIT :: GLuint where "GL_COLOR_BUFFER_BIT = 0x4000"
definition GL_ARRAY_BUFFER :: GLuint where "GL_ARRAY_BUFFER = 0x8892"
definition GL_ELEMENT_ARRAY_BUFFER :: GLuint where "GL_ELEMENT_ARRAY_BUFFER = 0x8893"
definition GL_STATIC_DRAW :: GLuint where "GL_STATIC_DRAW = 0x88E4"
definition GL_FRAGMENT_SHADER :: GLuint where "GL_FRAGMENT_SHADER = 0x8B30"
definition GL_VERTEX_SHADER :: GLuint where "GL_VERTEX_SHADER = 0x8B31"
definition GL_COMPILE_STATUS :: GLuint where "GL_COMPILE_STATUS = 0x8B81"
definition GL_INFO_LOG_LENGTH :: GLuint where "GL_INFO_LOG_LENGTH = 0x8B84"

text \<open>The two client arrays of \<open>main\<close> whose addresses are handed to the driver.\<close>

datatype client_array = positions | indices

text \<open>
  The external calls of Application.cpp with their arguments. Null pointer arguments
  and the element count 1 of \<open>glShaderSource\<close> are left out; a pointer to a C string
  is recorded as the string it points to; a window pointer and the pointer to the log
  buffer are addresses, \<open>0\<close> for \<open>NULL\<close>; byte sizes are computed with
  \<open>sizeof(float) = sizeof(unsigned int) = 4\<close>. \<open>Malloca\<close> is the allocation
  \<open>_malloca(length * sizeof(char))\<close>, recorded with \<open>length\<close>, which the macro
  converts to \<open>size_t\<close>.
\<close>

datatype call =
    GlfwInit
  | GlfwCreateWindow c_int c_int string
  | GlfwTerminate
  | GlfwMakeContextCurrent nat
  | GlewInit
  | GlGetString GLuint
  | GlGenBuffers c_int
  | GlBindBuffer GLuint GLuint
  | GlBufferData GLuint nat client_array GLuint
  | GlEnableVertexAttribArray GLuint
  | GlVertexAttribPointer GLuint c_int GLuint GLuint c_int nat
  | GlCreateShader GLuint
  | GlShaderSource GLuint string
  | GlCompileShader GLuint
  | GlGetShaderiv GLuint GLuint
  | Malloca c_int
  | GlGetShaderInfoLog GLuint c_int nat
  | GlDeleteShader GLuint
  | GlCreateProgram
  | GlAttachShader GLuint GLuint
  | GlLinkProgram GLuint
  | GlValidateProgram GLuint
  | GlUseProgram GLuint
  | GlDeleteProgram GLuint
  | GlfwWindowShouldClose nat
  | GlClear GLuint
  | GlGetError
  | GlDrawElements GLuint c_int GLuint
  | GlfwSwapBuffers nat
  | GlfwPollEvents

text \<open>
  \<open>DEBUG\<close>: whether the macro \<open>DEBUG\<close> is defined when the program is built.
  \<open>file_system\<close>: the bytes of the file at a path, \<open>None\<close> when it cannot be opened.
  \<open>ret_int\<close>, \<open>ret_uint\<close>, \<open>ret_ptr\<close>, \<open>ret_str\<close>: what the last call of a history
  returns, by the type of the result. For \<open>glGetShaderiv\<close> and \<open>glGenBuffers\<close> it is
  the value found in the out parameter after the call, and for
  \<open>glGetShaderInfoLog\<close> the bytes the driver stores for the log, terminator
  included, before they are cut to the size of the buffer.
\<close>

record world =
  DEBUG :: bool
  file_system :: "string \<Rightarrow> string option"
  ret_int :: "call list \<Rightarrow> c_int"
  ret_uint :: "call list \<Rightarrow> GLuint"
  ret_ptr :: "call list \<Rightarrow> nat"
  ret_str :: "call list \<Rightarrow> string"

text \<open>
  The program's observable state: the external calls made so far, the text written to
  \<open>std::cout\<close>, and whether \<open>std::cout\<close> is in hexadecimal mode (\<open>std::hex\<close> is
  sticky).
\<close>

record state =
  calls :: "call list"
  cout :: string
  cout_hex :: bool

definition extern_call :: "call \<Rightarrow> state \<Rightarrow> state" where
  "extern_call c s = s\<lparr>calls := calls s @ [c]\<rparr>"

definition call_int :: "world \<Rightarrow> call \<Rightarrow> state \<Rightarrow> c_int \<times> state" where
  "call_int w c s = (ret_int w (calls s @ [c]), extern_call c s)"

definition call_uint :: "world \<Rightarrow> call \<Rightarrow> state \<Rightarrow> GLuint \<times> state" where
  "call_uint w c s = (ret_uint w (calls s @ [c]), extern_call c s)"

definition call_ptr :: "world \<Rightarrow> call \<Rightarrow> state \<Rightarrow> nat \<times> state" where
  "call_ptr w c s = (ret_ptr w (calls s @ [c]), extern_call c s)"

definition call_str :: "world \<Rightarrow> call \<Rightarrow> state \<Rightarrow> string \<times> state" where
  "call_str w c s = (ret_str w (calls s @ [c]), extern_call c s)"

subsection \<open>Writing to std::cout\<close>

definition cout_str :: "string \<Rightarrow> state \<Rightarrow> state" where
  "cout_str x s = s\<lparr>cout := cout s @ x\<rparr>"

definition std_hex :: "state \<Rightarrow> state" where
  "std_hex s = s\<lparr>cout_hex := True\<rparr>"

definition digit_char :: "nat \<Rightarrow> char" where
  "digit_char d = ''0123456789abcdef'' ! d"

text \<open>
  The digits of an unsigned value, in base 16 (lower case, as \<open>std::hex\<close> prints
  them) or in base 10, without leading zeros.
\<close>

function show_uint :: "bool \<Rightarrow> nat \<Rightarrow> string" where
  "show_uint hex n =
     (if n < (if hex then 16 else 10) then [digit_char n]
      else show_uint hex (n div (if hex then 16 else 10))
             @ [digit_char (n mod (if hex then 16 else 10))])"
  by pat_completeness auto
termination
  by (relation "measure (\<lambda>(hex, n). n)") (auto split: if_splits)

declare show_uint.simps [simp del]

definition cout_uint :: "GLuint \<Rightarrow> state \<Rightarrow> state" where
  "cout_uint n s = cout_str (show_uint (cout_hex s) (unat n)) s"

section \<open>The error polling helpers\<close>

text \<open>
  Both helpers loop until \<open>glGetError\<close> returns \<open>GL_NO_ERROR\<close>. A driver that never
  does makes them run forever: the result is then \<open>None\<close>.
\<close>

partial_function (option) GLClearError :: "world \<Rightarrow> state \<Rightarrow> state option" where
  "GLClearError w s =
     (case call_uint w GlGetError s of
        (e, s1) \<Rightarrow> if e \<noteq> GL_NO_ERROR then GLClearError w s1 else Some s1)"

partial_function (option) GLCheckError :: "world \<Rightarrow> state \<Rightarrow> state option" where
  "GLCheckError w s =
     (case call_uint w GlGetError s of
        (error, s1) \<Rightarrow>
          if error \<noteq> 0 then
            GLCheckError w
              (cout_str endl (cout_str '')'' (cout_uint error (std_hex
                (cout_str ''[OpenGL Error] (0x'' s1)))))
          else Some s1)"

text \<open>
  The macro \<open>GLCall(x)\<close>. \<open>ASSERT\<close> and \<open>GLLogCall\<close> are defined nowhere in the
  repository, so \<open>ASSERT(GLLogCall())\<close> is a parameter. Application.cpp never
  expands the macro.
\<close>

definition GLCall :: "world \<Rightarrow> (state \<Rightarrow> state option) \<Rightarrow> (state \<Rightarrow> state option) \<Rightarrow> state \<Rightarrow> state option" where
  "GLCall w assert_GLLogCall x s =
     (if DEBUG w then Option.bind (Option.bind (GLClearError w s) x) assert_GLLogCall
      else x s)"

section \<open>CompileShader and CreateShader\<close>

text \<open>
  \<open>source.c_str()\<close> read as a C string: the bytes before the first NUL. The
  source's variable \<open>id\<close> is \<open>ident\<close> below and its \<open>length\<close> is \<open>len\<close>.
\<close>

definition c_str :: "string \<Rightarrow> string" where
  "c_str source = takeWhile (\<lambda>c. c \<noteq> CHR 0x00) source"

text \<open>
  The behaviour of the program is undefined when \<open>std::cout << message\<close> reads a
  buffer that holds no C string. The functions that can reach that statement return
  \<open>Inl UndefinedBehaviour\<close> then: nothing is said about what the program does.
\<close>

datatype fault = UndefinedBehaviour

text \<open>
  The log buffer of \<open>CompileShader\<close>. \<open>_malloca(length * sizeof(char))\<close> asks for
  \<open>length\<close> bytes; the world gives the pointer it returns, \<open>0\<close> for \<open>NULL\<close>, and the
  bytes of the buffer are indeterminate. \<open>glGetShaderInfoLog(id, length, &length,
  message)\<close> stores at most \<open>length\<close> bytes into the buffer, none when \<open>length\<close> is
  not positive: of the bytes the world says the driver stores, the buffer receives the
  first \<open>length\<close>.
\<close>

definition stored_log :: "c_int \<Rightarrow> string \<Rightarrow> string" where
  "stored_log len bytes = take (nat (sint len)) bytes"

text \<open>
  \<open>std::cout << message\<close> is defined when \<open>message\<close> is not \<open>NULL\<close> and a NUL is
  among the bytes stored in the buffer; it then writes the bytes before the first NUL.
\<close>

definition is_c_string :: "nat \<Rightarrow> string \<Rightarrow> bool" where
  "is_c_string message stored \<longleftrightarrow> message \<noteq> 0 \<and> CHR 0x00 \<in> set stored"

definition CompileShader :: "world \<Rightarrow> GLuint \<Rightarrow> string \<Rightarrow> state \<Rightarrow> fault + GLuint \<times> state" where
  "CompileShader w type source s =
     (case call_uint w (GlCreateShader type) s of (ident, s1) \<Rightarrow>
      let src = c_str source;
          s2 = extern_call (GlShaderSource ident src) s1;
          s3 = extern_call (GlCompileShader ident) s2
      in case call_int w (GlGetShaderiv ident GL_COMPILE_STATUS) s3 of (result, s4) \<Rightarrow>
      if result = 0 then
        (case call_int w (GlGetShaderiv ident GL_INFO_LOG_LENGTH) s4 of (len, s5) \<Rightarrow>
         case call_ptr w (Malloca len) s5 of (message, s6) \<Rightarrow>
         case call_str w (GlGetShaderInfoLog ident len message) s6 of (bytes, s7) \<Rightarrow>
         let stored = stored_log len bytes;
             s8 = cout_str endl (cout_str '' shader.''
                    (cout_str (if type = GL_VERTEX_SHADER then ''vertex'' else ''fragment'')
                      (cout_str ''Failed to compile '' s7)))
         in if is_c_string message stored then
              let s9 = cout_str endl (cout_str (c_str stored) s8);
                  s10 = extern_call (GlDeleteShader ident) s9
              in Inr (0, s10)
            else Inl UndefinedBehaviour)
      else Inr (ident, s4))"

definition CreateShader :: "world \<Rightarrow> string \<Rightarrow> string \<Rightarrow> state \<Rightarrow> fault + GLuint \<times> state" where
  "CreateShader w vertexShader fragmentShader s =
     (case call_uint w GlCreateProgram s of (program, s1) \<Rightarrow>
      case CompileShader w GL_VERTEX_SHADER vertexShader s1 of
        Inl e \<Rightarrow> Inl e
      | Inr (vs, s2) \<Rightarrow>
      case CompileShader w GL_FRAGMENT_SHADER fragmentShader s2 of
        Inl e \<Rightarrow> Inl e
      | Inr (fs, s3) \<Rightarrow>
      let s4 = extern_call (GlAttachShader program vs) s3;
          s5 = extern_call (GlAttachShader program fs) s4;
          s6 = extern_call (GlLinkProgram program) s5;
          s7 = extern_call (GlValidateProgram program) s6;
          s8 = extern_call (GlDeleteShader vs) s7;
          s9 = extern_call (GlDeleteShader fs) s8
      in Inr (program, s9))"

section \<open>main\<close>

text \<open>
  Lines 130 to 166 of \<open>main\<close>: from making the context current to the upload of the
  index buffer. Straight-line code. The string \<open>glGetString\<close> returns is taken to
  be non-null.
\<close>

definition main_setup :: "world \<Rightarrow> nat \<Rightarrow> state \<Rightarrow> state" where
  "main_setup w window s =
     (let s1 = extern_call (GlfwMakeContextCurrent window) s
      in case call_uint w GlewInit s1 of (glew, s2) \<Rightarrow>
      let s3 = (if glew \<noteq> GLEW_OK then cout_str endl (cout_str ''GLEW INIT NOT OK'' s2) else s2)
      in case call_str w (GlGetString GL_VERSION) s3 of (version, s4) \<Rightarrow>
      let s5 = cout_str endl (cout_str version s4)
      in case call_uint w (GlGenBuffers 1) s5 of (buffer, s6) \<Rightarrow>
      let s7 = extern_call (GlBindBuffer GL_ARRAY_BUFFER buffer) s6;
          s8 = extern_call (GlBufferData GL_ARRAY_BUFFER (4 * 2 * 4) positions GL_STATIC_DRAW) s7;
          s9 = extern_call (GlEnableVertexAttribArray 0) s8;
          s10 = extern_call (GlVertexAttribPointer 0 2 GL_FLOAT GL_FALSE (2 * 4) 0) s9
      in case call_uint w (GlGenBuffers 1) s10 of (ibo, s11) \<Rightarrow>
      let s12 = extern_call (GlBindBuffer GL_ELEMENT_ARRAY_BUFFER ibo) s11
      in extern_call (GlBufferData GL_ELEMENT_ARRAY_BUFFER (6 * 4) indices GL_STATIC_DRAW) s12)"

text \<open>One pass through the body of the render loop.\<close>

definition frame :: "world \<Rightarrow> nat \<Rightarrow> state \<Rightarrow> state option" where
  "frame w window s =
     Option.bind (GLClearError w (extern_call (GlClear GL_COLOR_BUFFER_BIT) s)) (\<lambda>s1.
     Option.bind (GLCheckError w (extern_call (GlDrawElements GL_TRIANGLES 6 GL_INT) s1)) (\<lambda>s2.
     Some (extern_call GlfwPollEvents (extern_call (GlfwSwapBuffers window) s2))))"

partial_function (option) render_loop :: "world \<Rightarrow> nat \<Rightarrow> state \<Rightarrow> state option" where
  "render_loop w window s =
     (case call_int w (GlfwWindowShouldClose window) s of
        (close, s1) \<Rightarrow>
          if close = 0 then Option.bind (frame w window s1) (render_loop w window)
          else Some s1)"

text \<open>
  \<open>main\<close> returns its exit status and the final state. The result is \<open>None\<close> when
  the model gives no exit status: the render loop never ends, or the behaviour of
  \<open>CreateShader\<close> is undefined. The process starts with nothing written and
  \<open>std::cout\<close> in decimal mode.
\<close>

definition main :: "world \<Rightarrow> (c_int \<times> state) option" where
  "main w =
     (case call_int w GlfwInit \<lparr>calls = [], cout = [], cout_hex = False\<rparr> of (init, s1) \<Rightarrow>
      if init = 0 then Some (- 1, s1)
      else case call_ptr w (GlfwCreateWindow 640 480 ''Hello World'') s1 of (window, s2) \<Rightarrow>
      if window = 0 then Some (- 1, extern_call GlfwTerminate s2)
      else
        let s3 = main_setup w window s2;
            source = ParseShader (file_system w) ''res/shaders/Basic.shader''
        in if VertexSource source = [] \<or> FragmentSource source = [] then Some (- 1, s3)
        else case CreateShader w (VertexSource source) (FragmentSource source) s3 of
          Inl e \<Rightarrow> None
        | Inr (shader, s4) \<Rightarrow>
          let s5 = extern_call (GlUseProgram shader) s4
          in Option.bind (render_loop w window s5) (\<lambda>s6.
               Some (0, extern_call GlfwTerminate (extern_call (GlDeleteProgram shader) s6))))"

section \<open>The splitter's contract in the words of the specification\<close>

text \<open>
  A marker line contains the token \<open>#shader\<close>; a recognized marker also contains
  \<open>vertex\<close> or \<open>fragment\<close> and names that section (\<open>vertex\<close> wins when both occur).
  The section active after a sequence of lines is the one named by the last recognized
  marker among them, \<open>NONE\<close> when there is none. The lines of a section are the lines
  that are not markers and are read while that section is active, in input order; a
  buffer is its lines, each followed by a newline.
\<close>

definition is_marker :: "string \<Rightarrow> bool" where
  "is_marker l \<longleftrightarrow> sublist ''#shader'' l"

definition recognized :: "string \<Rightarrow> bool" where
  "recognized l \<longleftrightarrow> is_marker l \<and> (sublist ''vertex'' l \<or> sublist ''fragment'' l)"

definition marker_section :: "string \<Rightarrow> ShaderType" where
  "marker_section l = (if sublist ''vertex'' l then VERTEX else FRAGMENT)"

definition active_section :: "string list \<Rightarrow> ShaderType" where
  "active_section ls =
     (case rev (filter recognized ls) of [] \<Rightarrow> NONE | m # _ \<Rightarrow> marker_section m)"

definition section_lines :: "ShaderType \<Rightarrow> string list \<Rightarrow> string list" where
  "section_lines k ls =
     map (\<lambda>i. ls ! i)
       (filter (\<lambda>i. \<not> is_marker (ls ! i) \<and> active_section (take i ls) = k) [0..<length ls])"

definition buffer_of :: "string list \<Rightarrow> string" where
  "buffer_of ls = concat (map (\<lambda>l. l @ endl) ls)"

text \<open>
  Every line lies under a recognized marker: no line that is not a marker is read
  while the active section is still \<open>NONE\<close>.
\<close>

definition all_under_marker :: "string list \<Rightarrow> bool" where
  "all_under_marker ls \<longleftrightarrow>
     list_all (\<lambda>i. is_marker (ls ! i) \<or> active_section (take i ls) \<noteq> NONE) [0..<length ls]"

section \<open>Notions used to state the claims about the driver calls\<close>

text \<open>
  The driver's error queue holds \<open>es\<close> after the calls \<open>h\<close>: the next calls of
  \<open>glGetError\<close> return the codes \<open>es\<close>, none of them \<open>GL_NO_ERROR\<close>, in this order,
  and then \<open>GL_NO_ERROR\<close>.
\<close>

fun pending :: "world \<Rightarrow> call list \<Rightarrow> GLuint list \<Rightarrow> bool" where
  "pending w h [] \<longleftrightarrow> ret_uint w (h @ [GlGetError]) = 0"
| "pending w h (e # es) \<longleftrightarrow>
     e \<noteq> 0 \<and> ret_uint w (h @ [GlGetError]) = e \<and> pending w (h @ [GlGetError]) es"

text \<open>The line \<open>GLCheckError\<close> prints for one error code.\<close>

definition error_line :: "GLuint \<Rightarrow> string" where
  "error_line e = ''[OpenGL Error] (0x'' @ show_uint True (unat e) @ '')'' @ endl"

text \<open>
  The calls that create, build, bind or release a shader stage or a program: every
  call made by \<open>CompileShader\<close> and \<open>CreateShader\<close>, the allocation of the log
  buffer included, and \<open>glUseProgram\<close>.
\<close>

definition shader_call :: "call \<Rightarrow> bool" where
  "shader_call c =
     (case c of
        GlCreateShader t \<Rightarrow> True
      | GlShaderSource i src \<Rightarrow> True
      | GlCompileShader i \<Rightarrow> True
      | GlGetShaderiv i p \<Rightarrow> True
      | Malloca n \<Rightarrow> True
      | GlGetShaderInfoLog i n m \<Rightarrow> True
      | GlDeleteShader i \<Rightarrow> True
      | GlCreateProgram \<Rightarrow> True
      | GlAttachShader p i \<Rightarrow> True
      | GlLinkProgram p \<Rightarrow> True
      | GlValidateProgram p \<Rightarrow> True
      | GlUseProgram p \<Rightarrow> True
      | _ \<Rightarrow> False)"

text \<open>The state in which \<open>main\<close> starts.\<close>

definition start :: state where
  "start = \<lparr>calls = [], cout = [], cout_hex = False\<rparr>"

text \<open>
  Example worlds. A driver that rejects every shader with a log of 17 characters
  (18 bytes with the terminator), and one that accepts every shader; a release build in which the draw call of the first frame raises
  \<open>GL_INVALID_ENUM\<close> (\<open>0x500\<close>); a release build whose shader file has a vertex
  section only.
\<close>

definition syntax_error_log :: string where
  "syntax_error_log = ''0:1: syntax error'' @ [CHR 0x00]"

definition failing_driver :: world where
  "failing_driver =
     \<lparr>DEBUG = False, file_system = (\<lambda>p. None),
      ret_int = (\<lambda>h. if last h = GlGetShaderiv 7 GL_INFO_LOG_LENGTH then 18 else 0),
      ret_uint = (\<lambda>h. 7), ret_ptr = (\<lambda>h. 4096),
      ret_str = (\<lambda>h. syntax_error_log)\<rparr>"


definition release_world :: world where
  "release_world =
     \<lparr>DEBUG = False, file_system = (\<lambda>p. None), ret_int = (\<lambda>h. 1),
      ret_uint = (\<lambda>h. if h = [GlClear GL_COLOR_BUFFER_BIT, GlGetError,
                                GlDrawElements GL_TRIANGLES 6 GL_INT, GlGetError]
                       then 0x500 else 0),
      ret_ptr = (\<lambda>h. 4096), ret_str = (\<lambda>h. [])\<rparr>"

definition one_section_world :: world where
  "one_section_world =
     \<lparr>DEBUG = False,
      file_system = (\<lambda>p. Some (''#shader vertex'' @ endl @ ''void main() {}'' @ endl)),
      ret_int = (\<lambda>h. 1),
      ret_uint = (\<lambda>h. if h = [GlfwInit, GlfwCreateWindow 640 480 ''Hello World'',
                                GlfwMakeContextCurrent 4096, GlewInit] then GLEW_OK else 1),
      ret_ptr = (\<lambda>h. 4096), ret_str = (\<lambda>h. ''4.6.0'')\<rparr>"

section \<open>Properties of the text primitives\<close>

lemma str_find_sublist: "str_find line pat \<noteq> None \<longleftrightarrow> sublist pat line"
  by (induction line) (auto simp: sublist_Cons_right)

lemma ParseShader_loop_read_lines:
  "ParseShader_loop stream st = foldl loop_body st (read_lines stream)"
proof (induction stream st rule: ParseShader_loop.induct)
  case (1 stream st)
  show ?case
  proof (cases "getline stream")
    case None
    then show ?thesis
      by (simp add: ParseShader_loop.simps [of stream] read_lines.simps [of stream])
  next
    case (Some p)
    obtain line stream' where p: "p = (line, stream')" by (cases p)
    with Some 1 show ?thesis
      by (simp add: ParseShader_loop.simps [of stream] read_lines.simps [of stream])
  qed
qed

lemma ParseShader_split_lines:
  "ParseShader files filePath = split_lines (read_lines (files filePath))"
  by (simp add: ParseShader_def split_lines_def ParseShader_loop_read_lines)

section \<open>The loop computes the sections\<close>

lemma active_section_snoc:
  "active_section (ls @ [l]) = (if recognized l then marker_section l else active_section ls)"
  by (simp add: active_section_def)

lemma section_lines_snoc:
  "section_lines k (ls @ [l]) =
     section_lines k ls @ (if \<not> is_marker l \<and> active_section ls = k then [l] else [])"
proof -
  have "filter (\<lambda>i. \<not> is_marker ((ls @ [l]) ! i) \<and> active_section (take i (ls @ [l])) = k) [0..<length ls]
      = filter (\<lambda>i. \<not> is_marker (ls ! i) \<and> active_section (take i ls) = k) [0..<length ls]"
    by (rule filter_cong) (auto simp: nth_append)
  moreover have "map (\<lambda>i. (ls @ [l]) ! i) (filter (\<lambda>i. \<not> is_marker (ls ! i) \<and> active_section (take i ls) = k) [0..<length ls])
      = map (\<lambda>i. ls ! i) (filter (\<lambda>i. \<not> is_marker (ls ! i) \<and> active_section (take i ls) = k) [0..<length ls])"
    by (rule map_cong) (auto simp: nth_append)
  ultimately show ?thesis
    by (simp add: section_lines_def)
qed

lemma buffer_of_snoc: "buffer_of (ls @ [l]) = buffer_of ls @ l @ endl"
  by (simp add: buffer_of_def)

lemma recognized_is_marker: "recognized l \<Longrightarrow> is_marker l"
  by (simp add: recognized_def)

lemma loop_body_cases:
  "loop_body (t, [v, f]) l =
     (if recognized l then (marker_section l, [v, f])
      else if is_marker l then (t, [v, f])
      else if t = VERTEX then (t, [v @ l @ endl, f])
      else if t = FRAGMENT then (t, [v, f @ l @ endl])
      else (t, [v, f]))"
  unfolding loop_body_def is_marker_def recognized_def marker_section_def str_find_sublist
  by (cases t) auto

lemma foldl_loop_body:
  "foldl loop_body (NONE, ['''', '''']) ls =
     (active_section ls, [buffer_of (section_lines VERTEX ls), buffer_of (section_lines FRAGMENT ls)])"
proof (induction ls rule: rev_induct)
  case Nil
  show ?case by (simp add: active_section_def section_lines_def buffer_of_def)
next
  case (snoc l ls)
  then show ?case
    by (auto simp: loop_body_cases active_section_snoc section_lines_snoc buffer_of_snoc
        dest: recognized_is_marker)
qed

lemma split_lines_sections:
  "split_lines ls = \<lparr>VertexSource = buffer_of (section_lines VERTEX ls),
                      FragmentSource = buffer_of (section_lines FRAGMENT ls)\<rparr>"
  by (simp add: split_lines_def foldl_loop_body)

lemma read_lines_None: "read_lines None = []"
  by (simp add: read_lines.simps [of None])

lemma read_lines_Nil: "read_lines (Some []) = []"
  by (simp add: read_lines.simps [of "Some []"])

lemma read_lines_Cons:
  "read_lines (Some (c # cs)) =
     takeWhile (\<lambda>x. x \<noteq> CHR 0x0A) (c # cs)
       # read_lines (Some (drop 1 (dropWhile (\<lambda>x. x \<noteq> CHR 0x0A) (c # cs))))"
  by (simp add: read_lines.simps [of "Some (c # cs)"])

lemma read_lines_no_newline: "l \<in> set (read_lines stream) \<Longrightarrow> CHR 0x0A \<notin> set l"
proof (induction stream arbitrary: l rule: read_lines.induct)
  case (1 stream)
  show ?case
  proof (cases stream rule: getline.cases)
    case 1
    with "1.prems" show ?thesis by (simp add: read_lines_None)
  next
    case 2
    with "1.prems" show ?thesis by (simp add: read_lines_Nil)
  next
    case (3 c cs)
    from "1.prems" 3 consider "l = takeWhile (\<lambda>x. x \<noteq> CHR 0x0A) (c # cs)"
      | "l \<in> set (read_lines (Some (drop 1 (dropWhile (\<lambda>x. x \<noteq> CHR 0x0A) (c # cs)))))"
      by (auto simp: read_lines_Cons simp del: takeWhile.simps dropWhile.simps)
    then show ?thesis
    proof cases
      case 1
      then show ?thesis by (auto dest: set_takeWhileD)
    next
      case 2
      with "1.IH" [OF _ refl] 3 show ?thesis by simp
    qed
  qed
qed

lemma read_lines_line:
  assumes "CHR 0x0A \<notin> set l"
  shows "read_lines (Some (l @ endl @ rest)) = l # read_lines (Some rest)"
proof -
  have tw: "takeWhile (\<lambda>x. x \<noteq> CHR 0x0A) (l @ CHR 0x0A # rest) = l"
    using assms by (induction l) auto
  have dw: "dropWhile (\<lambda>x. x \<noteq> CHR 0x0A) (l @ CHR 0x0A # rest) = CHR 0x0A # rest"
    using assms by (induction l) auto
  obtain c cs where e: "l @ CHR 0x0A # rest = c # cs"
    by (cases l) auto
  have "read_lines (Some (l @ CHR 0x0A # rest)) = l # read_lines (Some rest)"
    unfolding e read_lines_Cons unfolding e [symmetric] tw dw by simp
  then show ?thesis by (simp add: endl_def)
qed

lemma read_lines_buffer_of:
  "\<forall>l \<in> set ls. CHR 0x0A \<notin> set l \<Longrightarrow>
     read_lines (Some (buffer_of ls @ rest)) = ls @ read_lines (Some rest)"
proof (induction ls)
  case Nil
  show ?case by (simp add: buffer_of_def)
next
  case (Cons l ls)
  then show ?case
    using read_lines_line [of l "buffer_of ls @ rest"] by (simp add: buffer_of_def)
qed

lemma set_section_lines: "set (section_lines k ls) \<subseteq> {l \<in> set ls. \<not> is_marker l}"
  by (auto simp: section_lines_def)

lemma all_under_marker_iff:
  "all_under_marker ls \<longleftrightarrow>
     (\<forall>i < length ls. is_marker (ls ! i) \<or> active_section (take i ls) \<noteq> NONE)"
  by (auto simp: all_under_marker_def list_all_iff)

lemma all_under_marker_snoc:
  "all_under_marker (ls @ [l]) \<longleftrightarrow>
     all_under_marker ls \<and> (is_marker l \<or> active_section ls \<noteq> NONE)"
proof -
  have "all_under_marker (ls @ [l]) \<longleftrightarrow>
      (\<forall>i < length ls. is_marker ((ls @ [l]) ! i) \<or> active_section (take i (ls @ [l])) \<noteq> NONE)
      \<and> (is_marker l \<or> active_section ls \<noteq> NONE)"
    by (simp add: all_under_marker_iff less_Suc_eq all_conj_distrib conj_commute)
  also have "(\<forall>i < length ls. is_marker ((ls @ [l]) ! i) \<or> active_section (take i (ls @ [l])) \<noteq> NONE)
      \<longleftrightarrow> all_under_marker ls"
    by (simp add: all_under_marker_iff nth_append)
  finally show ?thesis .
qed

lemma mset_section_lines:
  "all_under_marker ls \<Longrightarrow>
     mset (section_lines VERTEX ls) + mset (section_lines FRAGMENT ls)
       = mset (filter (\<lambda>l. \<not> is_marker l) ls)"
proof (induction ls rule: rev_induct)
  case Nil
  show ?case by (simp add: section_lines_def)
next
  case (snoc l ls)
  then show ?case
    by (cases "active_section ls") (auto simp: all_under_marker_snoc section_lines_snoc)
qed

lemma foldl_loop_body_plain:
  assumes "\<forall>l \<in> set xs. \<not> is_marker l"
  shows "foldl loop_body (VERTEX, [v, f]) xs = (VERTEX, [v @ buffer_of xs, f])"
    and "foldl loop_body (FRAGMENT, [v, f]) xs = (FRAGMENT, [v, f @ buffer_of xs])"
  using assms
  by (induction xs arbitrary: v f)
     (auto simp: loop_body_cases buffer_of_def dest: recognized_is_marker)

lemma subseq_section_lines: "subseq (section_lines k ls) ls"
proof -
  have "subseq (map (\<lambda>i. ls ! i)
          (filter (\<lambda>i. \<not> is_marker (ls ! i) \<and> active_section (take i ls) = k) [0..<length ls]))
        (map (\<lambda>i. ls ! i) [0..<length ls])"
    by (intro subseq_map subseq_filter_left)
  then show ?thesis
    by (simp add: section_lines_def map_nth)
qed

lemma read_lines_sections:
  assumes "ls = read_lines stream"
  shows "read_lines (Some (buffer_of (section_lines k ls) @ rest))
           = section_lines k ls @ read_lines (Some rest)"
proof (rule read_lines_buffer_of)
  show "\<forall>l \<in> set (section_lines k ls). CHR 0x0A \<notin> set l"
    using set_section_lines [of k ls] assms by (auto dest: read_lines_no_newline)
qed

lemma ParseShader_sections_eq:
  "ParseShader files filePath =
     \<lparr>VertexSource = buffer_of (section_lines VERTEX (read_lines (files filePath))),
      FragmentSource = buffer_of (section_lines FRAGMENT (read_lines (files filePath)))\<rparr>"
  by (simp add: ParseShader_split_lines split_lines_sections)

section \<open>The claims about ParseShader\<close>

text \<open>
  Claim C1. For an input whose every line lies under a recognized section marker, the
  two buffers \<open>ParseShader\<close> returns are the lines of the vertex and of the fragment
  section, each line followed by a newline, in input order: read back line by line,
  the vertex buffer gives exactly the lines that are not markers and were read while
  the vertex section was active, the fragment buffer those of the fragment section;
  each is a subsequence of the input lines, and together they hold every line that
  is not a marker exactly once. For every input, no line of either buffer contains
  the token \<open>#shader\<close>.
\<close>

theorem ParseShader_sections:
  "let ls = read_lines (files filePath); src = ParseShader files filePath in
     (all_under_marker ls \<longrightarrow>
        VertexSource src = buffer_of (section_lines VERTEX ls) \<and>
        FragmentSource src = buffer_of (section_lines FRAGMENT ls) \<and>
        read_lines (Some (VertexSource src)) = section_lines VERTEX ls \<and>
        read_lines (Some (FragmentSource src)) = section_lines FRAGMENT ls \<and>
        subseq (read_lines (Some (VertexSource src))) ls \<and>
        subseq (read_lines (Some (FragmentSource src))) ls \<and>
        mset (read_lines (Some (VertexSource src))) + mset (read_lines (Some (FragmentSource src)))
          = mset (filter (\<lambda>l. \<not> is_marker l) ls)) \<and>
     (\<forall>l \<in> set (read_lines (Some (VertexSource src)))
            \<union> set (read_lines (Some (FragmentSource src))). \<not> is_marker l)"
proof -
  define ls where "ls = read_lines (files filePath)"
  have rl: "read_lines (Some (buffer_of (section_lines k ls))) = section_lines k ls" for k
    using read_lines_sections [OF ls_def, of k "[]"] by (simp add: read_lines_Nil)
  have nm: "\<forall>l \<in> set (section_lines k ls). \<not> is_marker l" for k
    using set_section_lines [of k ls] by auto
  show ?thesis
    unfolding Let_def ParseShader_sections_eq ls_def [symmetric]
    using nm [of VERTEX] nm [of FRAGMENT]
    by (auto simp: rl mset_section_lines subseq_section_lines)
qed

theorem ParseShader_sections_witness:
  "all_under_marker (read_lines (Some (''#shader vertex'' @ endl @ ''a'' @ endl @ ''#shader fragment'' @ endl @ ''b'' @ endl @ ''c''))) \<and>
   VertexSource (ParseShader (\<lambda>p. Some (''#shader vertex'' @ endl @ ''a'' @ endl @ ''#shader fragment'' @ endl @ ''b'' @ endl @ ''c'')) ''f'')
     = ''a'' @ endl \<and>
   FragmentSource (ParseShader (\<lambda>p. Some (''#shader vertex'' @ endl @ ''a'' @ endl @ ''#shader fragment'' @ endl @ ''b'' @ endl @ ''c'')) ''f'')
     = ''b'' @ endl @ ''c'' @ endl"
  using ParseShader_sections [of "\<lambda>p. Some (''#shader vertex'' @ endl @ ''a'' @ endl @ ''#shader fragment'' @ endl @ ''b'' @ endl @ ''c'')" "''f''"]
  by (simp add: Let_def endl_def read_lines_Cons read_lines_Nil all_under_marker_def
      section_lines_def buffer_of_def is_marker_def active_section_def recognized_def
      marker_section_def str_find_sublist [symmetric])

lemma marker_lines: "is_marker ''#shader vertex''" "recognized ''#shader vertex''"
  "marker_section ''#shader vertex'' = VERTEX"
  "is_marker ''#shader fragment''" "recognized ''#shader fragment''"
  "marker_section ''#shader fragment'' = FRAGMENT"
  by (simp_all add: is_marker_def recognized_def marker_section_def str_find_sublist [symmetric])

lemma split_lines_rewrapped:
  assumes "\<forall>l \<in> set vs. \<not> is_marker l" and "\<forall>l \<in> set fs. \<not> is_marker l"
  shows "split_lines (''#shader vertex'' # vs @ ''#shader fragment'' # fs)
           = \<lparr>VertexSource = buffer_of vs, FragmentSource = buffer_of fs\<rparr>"
  using assms
  by (simp add: split_lines_def loop_body_cases marker_lines foldl_loop_body_plain)

text \<open>
  Claim C4. Take the two buffers of any parse, write \<open>#shader vertex\<close> and a newline,
  the vertex buffer, \<open>#shader fragment\<close> and a newline, and the fragment buffer into
  a file: parsing that file returns the same two buffers.
\<close>

theorem ParseShader_resplit:
  "let src = ParseShader files filePath;
       text = ''#shader vertex'' @ endl @ VertexSource src
                @ ''#shader fragment'' @ endl @ FragmentSource src
   in ParseShader (files'(filePath' \<mapsto> text)) filePath' = src"
proof -
  define ls where "ls = read_lines (files filePath)"
  define vs where "vs = section_lines VERTEX ls"
  define fs where "fs = section_lines FRAGMENT ls"
  have nm: "\<forall>l \<in> set vs. \<not> is_marker l" "\<forall>l \<in> set fs. \<not> is_marker l"
    using set_section_lines [of VERTEX ls] set_section_lines [of FRAGMENT ls]
    by (auto simp: vs_def fs_def)
  have nl: "CHR 0x0A \<notin> set ''#shader vertex''" "CHR 0x0A \<notin> set ''#shader fragment''"
    by simp_all
  have "read_lines (Some (''#shader vertex'' @ endl @ buffer_of vs
            @ ''#shader fragment'' @ endl @ buffer_of fs))
      = ''#shader vertex'' # read_lines (Some (buffer_of vs
            @ ''#shader fragment'' @ endl @ buffer_of fs))"
    by (rule read_lines_line [OF nl(1)])
  also have "read_lines (Some (buffer_of vs @ ''#shader fragment'' @ endl @ buffer_of fs))
      = vs @ read_lines (Some (''#shader fragment'' @ endl @ buffer_of fs))"
    unfolding vs_def by (rule read_lines_sections [OF ls_def])
  also have "read_lines (Some (''#shader fragment'' @ endl @ buffer_of fs))
      = ''#shader fragment'' # read_lines (Some (buffer_of fs))"
    by (rule read_lines_line [OF nl(2)])
  also have "read_lines (Some (buffer_of fs)) = fs"
    using read_lines_sections [OF ls_def, of FRAGMENT "[]"]
    by (simp add: fs_def read_lines_Nil)
  finally have rl: "read_lines (Some (''#shader vertex'' @ endl @ buffer_of vs
            @ ''#shader fragment'' @ endl @ buffer_of fs))
      = ''#shader vertex'' # vs @ ''#shader fragment'' # fs" .
  have src: "ParseShader files filePath
      = \<lparr>VertexSource = buffer_of vs, FragmentSource = buffer_of fs\<rparr>"
    by (simp add: ParseShader_sections_eq vs_def fs_def ls_def)
  show ?thesis
    unfolding Let_def src
    by (simp add: ParseShader_split_lines rl split_lines_rewrapped [OF nm] del: append.simps)
qed

theorem ParseShader_resplit_witness:
  "ParseShader ((\<lambda>p. None)(''g'' \<mapsto> ''#shader vertex'' @ endl @ ''a'' @ endl @ ''#shader fragment'' @ endl @ ''b'' @ endl)) ''g''
     = ParseShader (\<lambda>p. Some (''x'' @ endl @ ''#shader fragment'' @ endl @ ''b'' @ endl @ ''#shader vertex'' @ endl @ ''a'')) ''f''"
  using ParseShader_resplit [of "\<lambda>p. Some (''x'' @ endl @ ''#shader fragment'' @ endl @ ''b'' @ endl @ ''#shader vertex'' @ endl @ ''a'')" "''f''" "\<lambda>p. None" "''g''"]
  by (simp add: Let_def ParseShader_split_lines split_lines_def loop_body_def endl_def
      read_lines_Cons read_lines_Nil)

lemma foldl_loop_body_skip:
  assumes "\<And>st. loop_body st l = st"
  shows "foldl loop_body st (pre @ l # post) = foldl loop_body st (pre @ post)"
  by (simp add: assms)

lemma loop_body_unrecognized:
  assumes "is_marker l" and "\<not> sublist ''vertex'' l" and "\<not> sublist ''fragment'' l"
  shows "loop_body st l = st"
  using assms unfolding loop_body_def is_marker_def str_find_sublist
  by (cases st) simp

text \<open>
  Claim C6. A line that contains \<open>#shader\<close> but neither \<open>vertex\<close> nor \<open>fragment\<close>
  leaves the loop's variables as they are, the active section and both buffers, so
  the parse is the same as without that line. In particular the lines
  \<open>#shader vertex\<close>, \<open>a\<close>, \<open>#shader geometry\<close>, \<open>b\<close> give the vertex buffer
  \<open>a\<close>, newline, \<open>b\<close>, newline and an empty fragment buffer, both as a sequence of
  lines and as a file.
\<close>

theorem unrecognized_marker_ignored:
  "(is_marker l \<and> \<not> sublist ''vertex'' l \<and> \<not> sublist ''fragment'' l \<longrightarrow>
      loop_body (type, ss) l = (type, ss) \<and>
      split_lines (pre @ l # post) = split_lines (pre @ post)) \<and>
   split_lines [''#shader vertex'', ''a'', ''#shader geometry'', ''b'']
     = \<lparr>VertexSource = ''a'' @ endl @ ''b'' @ endl, FragmentSource = ''''\<rparr> \<and>
   ParseShader (\<lambda>p. Some (''#shader vertex'' @ endl @ ''a'' @ endl
                              @ ''#shader geometry'' @ endl @ ''b'' @ endl)) filePath
     = \<lparr>VertexSource = ''a'' @ endl @ ''b'' @ endl, FragmentSource = ''''\<rparr>"
proof -
  have "split_lines (pre @ l # post) = split_lines (pre @ post)"
    if "is_marker l" "\<not> sublist ''vertex'' l" "\<not> sublist ''fragment'' l"
    unfolding split_lines_def
    using foldl_loop_body_skip [of l _ pre post] loop_body_unrecognized [OF that]
    by simp
  moreover have "split_lines [''#shader vertex'', ''a'', ''#shader geometry'', ''b'']
     = \<lparr>VertexSource = ''a'' @ endl @ ''b'' @ endl, FragmentSource = ''''\<rparr>"
    by (simp add: split_lines_def loop_body_def endl_def)
  moreover have "read_lines (Some (''#shader vertex'' @ endl @ ''a'' @ endl
                              @ ''#shader geometry'' @ endl @ ''b'' @ endl))
     = [''#shader vertex'', ''a'', ''#shader geometry'', ''b'']"
    by (simp add: endl_def read_lines_Cons read_lines_Nil)
  ultimately show ?thesis
    by (simp add: loop_body_unrecognized ParseShader_split_lines)
qed

theorem unrecognized_marker_ignored_witness:
  "is_marker ''#shader geometry'' \<and> \<not> sublist ''vertex'' ''#shader geometry''
   \<and> \<not> sublist ''fragment'' ''#shader geometry''
   \<and> loop_body (FRAGMENT, [''v'', ''f'']) ''#shader geometry'' = (FRAGMENT, [''v'', ''f''])
   \<and> split_lines ([''#shader fragment'', ''a''] @ ''#shader geometry'' # [''b''])
       = split_lines ([''#shader fragment'', ''a''] @ [''b''])"
  using unrecognized_marker_ignored [of "''#shader geometry''" FRAGMENT "[''v'', ''f'']"
      "[''#shader fragment'', ''a'']" "[''b'']"]
  by (simp add: is_marker_def str_find_sublist [symmetric])

lemma foldl_loop_body_NONE:
  assumes "\<forall>l \<in> set pre. \<not> recognized l"
  shows "foldl loop_body (NONE, [v, f]) pre = (NONE, [v, f])"
  using assms by (induction pre) (simp_all add: loop_body_cases)

text \<open>
  Claim C7. A line read while the active section is \<open>NONE\<close> changes neither buffer;
  lines that precede the first recognized marker do not change the result of the
  parse. In particular the lines \<open>foo\<close>, \<open>#shader vertex\<close>, \<open>bar\<close> give the vertex
  buffer \<open>bar\<close>, newline and an empty fragment buffer, both as a sequence of lines and
  as a file.
\<close>

theorem lines_before_first_marker_dropped:
  "snd (loop_body (NONE, ss) l) = ss \<and>
   ((\<forall>l \<in> set pre. \<not> recognized l) \<longrightarrow> split_lines (pre @ post) = split_lines post) \<and>
   split_lines [''foo'', ''#shader vertex'', ''bar'']
     = \<lparr>VertexSource = ''bar'' @ endl, FragmentSource = ''''\<rparr> \<and>
   ParseShader (\<lambda>p. Some (''foo'' @ endl @ ''#shader vertex'' @ endl @ ''bar'' @ endl)) filePath
     = \<lparr>VertexSource = ''bar'' @ endl, FragmentSource = ''''\<rparr>"
proof -
  have "snd (loop_body (NONE, ss) l) = ss"
    by (simp add: loop_body_def)
  moreover have "split_lines (pre @ post) = split_lines post"
    if "\<forall>l \<in> set pre. \<not> recognized l"
    by (simp add: split_lines_def foldl_loop_body_NONE [OF that])
  moreover have "split_lines [''foo'', ''#shader vertex'', ''bar'']
     = \<lparr>VertexSource = ''bar'' @ endl, FragmentSource = ''''\<rparr>"
    by (simp add: split_lines_def loop_body_def endl_def)
  moreover have "read_lines (Some (''foo'' @ endl @ ''#shader vertex'' @ endl @ ''bar'' @ endl))
     = [''foo'', ''#shader vertex'', ''bar'']"
    by (simp add: endl_def read_lines_Cons read_lines_Nil)
  ultimately show ?thesis
    by (simp add: ParseShader_split_lines)
qed

theorem lines_before_first_marker_dropped_witness:
  "\<not> recognized ''foo'' \<and> \<not> recognized ''#shader x'' \<and>
   split_lines ([''foo'', ''#shader x''] @ [''#shader fragment'', ''bar''])
     = split_lines [''#shader fragment'', ''bar''] \<and>
   split_lines [''#shader fragment'', ''bar'']
     = \<lparr>VertexSource = '''', FragmentSource = ''bar'' @ endl\<rparr>"
  using lines_before_first_marker_dropped [of "[''v'', ''f'']" "''foo''" "[''foo'', ''#shader x'']"
      "[''#shader fragment'', ''bar'']" "''f''"]
  by (simp add: recognized_def is_marker_def str_find_sublist [symmetric]
      split_lines_def loop_body_def endl_def)

text \<open>
  Claim C8. When the file cannot be opened, \<open>ParseShader\<close> returns two empty buffers,
  which is also what it returns for a readable file none of whose lines is a
  recognized section marker.
\<close>

theorem ParseShader_unreadable:
  "(files filePath = None \<longrightarrow>
      ParseShader files filePath = \<lparr>VertexSource = '''', FragmentSource = ''''\<rparr>) \<and>
   (files filePath = None \<and> files' filePath' = Some content \<and>
    (\<forall>l \<in> set (read_lines (Some content)). \<not> recognized l) \<longrightarrow>
      ParseShader files' filePath' = ParseShader files filePath)"
proof -
  have a: "ParseShader files filePath = \<lparr>VertexSource = '''', FragmentSource = ''''\<rparr>"
    if "files filePath = None"
    using that by (simp add: ParseShader_split_lines read_lines_None split_lines_def)
  have b: "ParseShader files' filePath' = \<lparr>VertexSource = '''', FragmentSource = ''''\<rparr>"
    if "files' filePath' = Some content" "\<forall>l \<in> set (read_lines (Some content)). \<not> recognized l"
    using that foldl_loop_body_NONE [of "read_lines (Some content)" "''''" "''''"]
    by (simp add: ParseShader_split_lines split_lines_def)
  from a b show ?thesis by simp
qed

theorem ParseShader_unreadable_witness:
  "(\<lambda>p. None :: string option) ''missing'' = None \<and>
   (\<lambda>p. Some (''void main() {}'' @ endl @ ''#shader'')) ''present''
      = Some (''void main() {}'' @ endl @ ''#shader'') \<and>
   \<not> recognized ''void main() {}'' \<and> \<not> recognized ''#shader'' \<and>
   ParseShader (\<lambda>p. None) ''missing'' = \<lparr>VertexSource = '''', FragmentSource = ''''\<rparr> \<and>
   ParseShader (\<lambda>p. Some (''void main() {}'' @ endl @ ''#shader'')) ''present''
      = ParseShader (\<lambda>p. None) ''missing''"
  using ParseShader_unreadable [of "\<lambda>p. None" "''missing''"
      "\<lambda>p. Some (''void main() {}'' @ endl @ ''#shader'')" "''present''"
      "''void main() {}'' @ endl @ ''#shader''"]
  by (simp add: recognized_def is_marker_def str_find_sublist [symmetric]
      endl_def read_lines_Cons read_lines_Nil)

section \<open>The claims about CompileShader and CreateShader\<close>

lemma extern_call_sel [simp]:
  "calls (extern_call c s) = calls s @ [c]"
  "cout (extern_call c s) = cout s"
  "cout_hex (extern_call c s) = cout_hex s"
  by (simp_all add: extern_call_def)

lemma cout_str_sel [simp]:
  "calls (cout_str x s) = calls s"
  "cout (cout_str x s) = cout s @ x"
  "cout_hex (cout_str x s) = cout_hex s"
  by (simp_all add: cout_str_def)

lemmas call_defs = call_int_def call_uint_def call_ptr_def call_str_def

lemma state_eqI:
  "calls s = c \<Longrightarrow> cout s = t \<Longrightarrow> cout_hex s = b \<Longrightarrow>
     s = \<lparr>calls = c, cout = t, cout_hex = b\<rparr>"
  by (cases s) simp

lemma CompileShader_failure:
  assumes "ident = ret_uint w (calls s @ [GlCreateShader type])"
    and "h = calls s @ [GlCreateShader type, GlShaderSource ident (c_str source),
                      GlCompileShader ident, GlGetShaderiv ident GL_COMPILE_STATUS]"
    and "len = ret_int w (h @ [GlGetShaderiv ident GL_INFO_LOG_LENGTH])"
    and "message = ret_ptr w (h @ [GlGetShaderiv ident GL_INFO_LOG_LENGTH, Malloca len])"
    and "h' = h @ [GlGetShaderiv ident GL_INFO_LOG_LENGTH, Malloca len,
                   GlGetShaderInfoLog ident len message]"
    and "stored = stored_log len (ret_str w h')"
    and "ret_int w h = 0"
  shows "is_c_string message stored \<Longrightarrow>
           CompileShader w type source s =
             Inr (0, \<lparr>calls = h' @ [GlDeleteShader ident],
                       cout = cout s @ ''Failed to compile ''
                                @ (if type = GL_VERTEX_SHADER then ''vertex'' else ''fragment'')
                                @ '' shader.'' @ endl @ c_str stored @ endl,
                       cout_hex = cout_hex s\<rparr>)"
    and "\<not> is_c_string message stored \<Longrightarrow>
           CompileShader w type source s = Inl UndefinedBehaviour"
proof -
  assume c: "is_c_string message stored"
  define s4 where "s4 = extern_call (GlGetShaderiv ident GL_COMPILE_STATUS)
                      (extern_call (GlCompileShader ident)
                        (extern_call (GlShaderSource ident (c_str source))
                          (extern_call (GlCreateShader type) s)))"
  define s7 where "s7 = extern_call (GlGetShaderInfoLog ident len message)
                (extern_call (Malloca len)
                  (extern_call (GlGetShaderiv ident GL_INFO_LOG_LENGTH) s4))"
  define s10 where "s10 = extern_call (GlDeleteShader ident) (cout_str endl
        (cout_str (c_str stored) (cout_str endl (cout_str '' shader.''
          (cout_str (if type = GL_VERTEX_SHADER then ''vertex'' else ''fragment'')
            (cout_str ''Failed to compile '' s7))))))"
  have "CompileShader w type source s = Inr (0, s10)"
    using assms c by (simp add: CompileShader_def Let_def call_defs s4_def s7_def s10_def)
  also have "s10 = \<lparr>calls = h' @ [GlDeleteShader ident],
                       cout = cout s @ ''Failed to compile ''
                                @ (if type = GL_VERTEX_SHADER then ''vertex'' else ''fragment'')
                                @ '' shader.'' @ endl @ c_str stored @ endl,
                       cout_hex = cout_hex s\<rparr>"
    by (rule state_eqI) (simp_all add: assms(2,5) s4_def s7_def s10_def)
  finally show "CompileShader w type source s =
             Inr (0, \<lparr>calls = h' @ [GlDeleteShader ident],
                       cout = cout s @ ''Failed to compile ''
                                @ (if type = GL_VERTEX_SHADER then ''vertex'' else ''fragment'')
                                @ '' shader.'' @ endl @ c_str stored @ endl,
                       cout_hex = cout_hex s\<rparr>)" .
next
  assume "\<not> is_c_string message stored"
  with assms show "CompileShader w type source s = Inl UndefinedBehaviour"
    by (simp add: CompileShader_def Let_def call_defs)
qed

lemma CompileShader_success:
  assumes "ident = ret_uint w (calls s @ [GlCreateShader type])"
    and "h = calls s @ [GlCreateShader type, GlShaderSource ident (c_str source),
                      GlCompileShader ident, GlGetShaderiv ident GL_COMPILE_STATUS]"
    and "ret_int w h \<noteq> 0"
  shows "CompileShader w type source s =
           Inr (ident, \<lparr>calls = h, cout = cout s, cout_hex = cout_hex s\<rparr>)"
proof -
  have "CompileShader w type source s =
      Inr (ident, extern_call (GlGetShaderiv ident GL_COMPILE_STATUS)
                      (extern_call (GlCompileShader ident)
                        (extern_call (GlShaderSource ident (c_str source))
                          (extern_call (GlCreateShader type) s))))"
    using assms by (simp add: CompileShader_def Let_def call_defs)
  also have "extern_call (GlGetShaderiv ident GL_COMPILE_STATUS)
                      (extern_call (GlCompileShader ident)
                        (extern_call (GlShaderSource ident (c_str source))
                          (extern_call (GlCreateShader type) s)))
      = \<lparr>calls = h, cout = cout s, cout_hex = cout_hex s\<rparr>"
    by (rule state_eqI) (simp_all add: assms(2))
  finally show ?thesis .
qed


lemma failing_driver_returns:
  "ret_uint failing_driver h = 7" "ret_ptr failing_driver h = 4096"
  "ret_str failing_driver h = syntax_error_log"
  "ret_int failing_driver (h @ [GlGetShaderiv 7 GL_COMPILE_STATUS]) = 0"
  "ret_int failing_driver (h @ [GlGetShaderiv 7 GL_INFO_LOG_LENGTH]) = 18"
  by (simp_all add: failing_driver_def GL_COMPILE_STATUS_def GL_INFO_LOG_LENGTH_def)

lemma failing_driver_log:
  "stored_log 18 syntax_error_log = syntax_error_log"
  "is_c_string 4096 syntax_error_log"
  "c_str syntax_error_log = ''0:1: syntax error''"
  by (simp_all add: stored_log_def is_c_string_def c_str_def syntax_error_log_def)

lemma failing_driver_compile:
  "CompileShader failing_driver type source s =
     Inr (0, \<lparr>calls = calls s @ [GlCreateShader type, GlShaderSource 7 (c_str source),
                      GlCompileShader 7, GlGetShaderiv 7 GL_COMPILE_STATUS,
                      GlGetShaderiv 7 GL_INFO_LOG_LENGTH, Malloca 18,
                      GlGetShaderInfoLog 7 18 4096, GlDeleteShader 7],
               cout = cout s @ ''Failed to compile ''
                        @ (if type = GL_VERTEX_SHADER then ''vertex'' else ''fragment'')
                        @ '' shader.'' @ endl @ ''0:1: syntax error'' @ endl,
               cout_hex = cout_hex s\<rparr>)"
proof -
  have a: "ret_int failing_driver (calls s @ [GlCreateShader type, GlShaderSource 7 (c_str source),
                      GlCompileShader 7, GlGetShaderiv 7 GL_COMPILE_STATUS]) = 0"
    using failing_driver_returns(4) [of "calls s @ [GlCreateShader type,
      GlShaderSource 7 (c_str source), GlCompileShader 7]"] by simp
  have b: "ret_int failing_driver (calls s @ [GlCreateShader type, GlShaderSource 7 (c_str source),
                      GlCompileShader 7, GlGetShaderiv 7 GL_COMPILE_STATUS,
                      GlGetShaderiv 7 GL_INFO_LOG_LENGTH]) = 18"
    using failing_driver_returns(5) [of "calls s @ [GlCreateShader type,
      GlShaderSource 7 (c_str source), GlCompileShader 7,
      GlGetShaderiv 7 GL_COMPILE_STATUS]"] by simp
  show ?thesis
    using CompileShader_failure(1) [OF refl refl refl refl refl refl,
        of failing_driver s type source]
    by (simp add: failing_driver_returns(1-3) a b failing_driver_log)
qed


text \<open>
  Where the status is 0 and the buffer holds no C string, in particular whenever the
  queried length of the log is not positive, line 84 prints from a buffer without a
  terminator: the behaviour is undefined.
\<close>

lemma CompileShader_no_log:
  assumes "ident = ret_uint w (calls s @ [GlCreateShader type])"
    and "h = calls s @ [GlCreateShader type, GlShaderSource ident (c_str source),
                      GlCompileShader ident, GlGetShaderiv ident GL_COMPILE_STATUS]"
    and "ret_int w h = 0"
    and "sint (ret_int w (h @ [GlGetShaderiv ident GL_INFO_LOG_LENGTH])) \<le> 0"
  shows "CompileShader w type source s = Inl UndefinedBehaviour"
proof (rule CompileShader_failure(2) [OF assms(1,2) refl refl refl refl assms(3)])
  show "\<not> is_c_string
         (ret_ptr w (h @ [GlGetShaderiv ident GL_INFO_LOG_LENGTH,
                          Malloca (ret_int w (h @ [GlGetShaderiv ident GL_INFO_LOG_LENGTH]))]))
         (stored_log (ret_int w (h @ [GlGetShaderiv ident GL_INFO_LOG_LENGTH]))
           (ret_str w (h @ [GlGetShaderiv ident GL_INFO_LOG_LENGTH,
              Malloca (ret_int w (h @ [GlGetShaderiv ident GL_INFO_LOG_LENGTH])),
              GlGetShaderInfoLog ident (ret_int w (h @ [GlGetShaderiv ident GL_INFO_LOG_LENGTH]))
                (ret_ptr w (h @ [GlGetShaderiv ident GL_INFO_LOG_LENGTH,
                   Malloca (ret_int w (h @ [GlGetShaderiv ident GL_INFO_LOG_LENGTH]))]))])))"
    using assms(4) by (simp add: is_c_string_def stored_log_def)
qed

lemma CompileShader_cout_hex:
  assumes "CompileShader w type source s = Inr (r, s')"
  shows "cout_hex s' = cout_hex s"
proof -
  define ident where "ident = ret_uint w (calls s @ [GlCreateShader type])"
  define h where "h = calls s @ [GlCreateShader type, GlShaderSource ident (c_str source),
                      GlCompileShader ident, GlGetShaderiv ident GL_COMPILE_STATUS]"
  show ?thesis
  proof (cases "ret_int w h = 0")
    case False
    with assms CompileShader_success [OF ident_def h_def] show ?thesis by auto
  next
    case True
    define len where "len = ret_int w (h @ [GlGetShaderiv ident GL_INFO_LOG_LENGTH])"
    define message where
      "message = ret_ptr w (h @ [GlGetShaderiv ident GL_INFO_LOG_LENGTH, Malloca len])"
    define h' where "h' = h @ [GlGetShaderiv ident GL_INFO_LOG_LENGTH, Malloca len,
                 GlGetShaderInfoLog ident len message]"
    define stored where "stored = stored_log len (ret_str w h')"
    note f = CompileShader_failure [OF ident_def h_def len_def message_def h'_def stored_def True]
    show ?thesis
    proof (cases "is_c_string message stored")
      case True
      with assms f(1) show ?thesis by auto
    next
      case False
      with assms f(2) show ?thesis by auto
    qed
  qed
qed

lemma CreateShader_Inl:
  "CompileShader w GL_VERTEX_SHADER vertexShader (extern_call GlCreateProgram s) = Inl e \<Longrightarrow>
     CreateShader w vertexShader fragmentShader s = Inl e"
  "CompileShader w GL_VERTEX_SHADER vertexShader (extern_call GlCreateProgram s) = Inr (vs, s2) \<Longrightarrow>
   CompileShader w GL_FRAGMENT_SHADER fragmentShader s2 = Inl e \<Longrightarrow>
     CreateShader w vertexShader fragmentShader s = Inl e"
  by (simp_all add: CreateShader_def call_uint_def)

lemma CreateShader_Inr:
  assumes "CompileShader w GL_VERTEX_SHADER vertexShader (extern_call GlCreateProgram s) = Inr (vs, s2)"
    and "CompileShader w GL_FRAGMENT_SHADER fragmentShader s2 = Inr (fs, s3)"
  shows "CreateShader w vertexShader fragmentShader s =
     Inr (ret_uint w (calls s @ [GlCreateProgram]),
          \<lparr>calls = calls s3 @
             [GlAttachShader (ret_uint w (calls s @ [GlCreateProgram])) vs,
              GlAttachShader (ret_uint w (calls s @ [GlCreateProgram])) fs,
              GlLinkProgram (ret_uint w (calls s @ [GlCreateProgram])),
              GlValidateProgram (ret_uint w (calls s @ [GlCreateProgram])),
              GlDeleteShader vs, GlDeleteShader fs],
           cout = cout s3, cout_hex = cout_hex s\<rparr>)"
proof -
  define program where "program = ret_uint w (calls s @ [GlCreateProgram])"
  define s9 where "s9 = extern_call (GlDeleteShader fs) (extern_call (GlDeleteShader vs)
      (extern_call (GlValidateProgram program) (extern_call (GlLinkProgram program)
        (extern_call (GlAttachShader program fs)
          (extern_call (GlAttachShader program vs) s3)))))"
  have hex: "cout_hex s3 = cout_hex s"
    using CompileShader_cout_hex [OF assms(2)] CompileShader_cout_hex [OF assms(1)] by simp
  have "CreateShader w vertexShader fragmentShader s = Inr (program, s9)"
    using assms by (simp add: CreateShader_def Let_def call_uint_def program_def s9_def)
  also have "s9 = \<lparr>calls = calls s3 @
             [GlAttachShader program vs, GlAttachShader program fs,
              GlLinkProgram program, GlValidateProgram program,
              GlDeleteShader vs, GlDeleteShader fs],
           cout = cout s3, cout_hex = cout_hex s\<rparr>"
    by (rule state_eqI) (simp_all add: s9_def hex)
  finally show ?thesis
    by (simp add: program_def)
qed

text \<open>
  Claim C5. For every pair of sources and every driver: \<open>CreateShader\<close> creates the
  program, compiles the vertex source and then the fragment source with
  \<open>CompileShader\<close>, whatever handle the first compile returned; when both compiles
  have returned it attaches both returned handles as they are (so the handle 0 of a
  failed compile too), links, validates, deletes both stage handles, makes no other
  call (none that reads a link or validate status) and returns the handle
  \<open>glCreateProgram\<close> gave.
\<close>

theorem CreateShader_trace:
  "let program = ret_uint w (calls s @ [GlCreateProgram])
   in CompileShader w GL_VERTEX_SHADER vertexShader (extern_call GlCreateProgram s) = Inr (vs, s2) \<and>
      CompileShader w GL_FRAGMENT_SHADER fragmentShader s2 = Inr (fs, s3) \<longrightarrow>
        CreateShader w vertexShader fragmentShader s =
          Inr (program,
               \<lparr>calls = calls s3 @
                  [GlAttachShader program vs, GlAttachShader program fs,
                   GlLinkProgram program, GlValidateProgram program,
                   GlDeleteShader vs, GlDeleteShader fs],
                cout = cout s3, cout_hex = cout_hex s\<rparr>)"
  using CreateShader_Inr [of w vertexShader s vs s2 fragmentShader fs s3]
  by (simp add: Let_def)

theorem CreateShader_trace_witness:
  "CreateShader failing_driver ''v'' ''f'' start =
     Inr (7, \<lparr>calls =
       [GlCreateProgram,
        GlCreateShader GL_VERTEX_SHADER, GlShaderSource 7 ''v'', GlCompileShader 7,
        GlGetShaderiv 7 GL_COMPILE_STATUS, GlGetShaderiv 7 GL_INFO_LOG_LENGTH,
        Malloca 18, GlGetShaderInfoLog 7 18 4096, GlDeleteShader 7,
        GlCreateShader GL_FRAGMENT_SHADER, GlShaderSource 7 ''f'', GlCompileShader 7,
        GlGetShaderiv 7 GL_COMPILE_STATUS, GlGetShaderiv 7 GL_INFO_LOG_LENGTH,
        Malloca 18, GlGetShaderInfoLog 7 18 4096, GlDeleteShader 7,
        GlAttachShader 7 0, GlAttachShader 7 0, GlLinkProgram 7, GlValidateProgram 7,
        GlDeleteShader 0, GlDeleteShader 0],
       cout = ''Failed to compile vertex shader.'' @ endl @ ''0:1: syntax error'' @ endl
                @ ''Failed to compile fragment shader.'' @ endl @ ''0:1: syntax error'' @ endl,
       cout_hex = False\<rparr>)"
proof -
  define s2 where "s2 = \<lparr>calls =
       [GlCreateProgram,
        GlCreateShader GL_VERTEX_SHADER, GlShaderSource 7 ''v'', GlCompileShader 7,
        GlGetShaderiv 7 GL_COMPILE_STATUS, GlGetShaderiv 7 GL_INFO_LOG_LENGTH,
        Malloca 18, GlGetShaderInfoLog 7 18 4096, GlDeleteShader 7],
       cout = ''Failed to compile vertex shader.'' @ endl @ ''0:1: syntax error'' @ endl,
       cout_hex = False\<rparr>"
  define s3 where "s3 = \<lparr>calls =
       [GlCreateProgram,
        GlCreateShader GL_VERTEX_SHADER, GlShaderSource 7 ''v'', GlCompileShader 7,
        GlGetShaderiv 7 GL_COMPILE_STATUS, GlGetShaderiv 7 GL_INFO_LOG_LENGTH,
        Malloca 18, GlGetShaderInfoLog 7 18 4096, GlDeleteShader 7,
        GlCreateShader GL_FRAGMENT_SHADER, GlShaderSource 7 ''f'', GlCompileShader 7,
        GlGetShaderiv 7 GL_COMPILE_STATUS, GlGetShaderiv 7 GL_INFO_LOG_LENGTH,
        Malloca 18, GlGetShaderInfoLog 7 18 4096, GlDeleteShader 7],
       cout = ''Failed to compile vertex shader.'' @ endl @ ''0:1: syntax error'' @ endl
                @ ''Failed to compile fragment shader.'' @ endl @ ''0:1: syntax error'' @ endl,
       cout_hex = False\<rparr>"
  have ne: "GL_FRAGMENT_SHADER \<noteq> GL_VERTEX_SHADER"
    by (simp add: GL_FRAGMENT_SHADER_def GL_VERTEX_SHADER_def)
  have c1: "CompileShader failing_driver GL_VERTEX_SHADER ''v''
              (extern_call GlCreateProgram start) = Inr (0, s2)"
    by (simp add: failing_driver_compile s2_def start_def c_str_def)
  have c2: "CompileShader failing_driver GL_FRAGMENT_SHADER ''f'' s2 = Inr (0, s3)"
    by (simp add: failing_driver_compile s2_def s3_def c_str_def ne)
  show ?thesis
    using CreateShader_trace [where w = failing_driver and s = start and vertexShader = "''v''"
        and vs = 0 and ?s2.0 = s2 and fragmentShader = "''f''" and fs = 0 and ?s3.0 = s3] c1 c2
    by (simp add: Let_def failing_driver_returns(1) s3_def start_def)
qed

section \<open>The error polling loops\<close>

lemma std_hex_sel [simp]:
  "calls (std_hex s) = calls s"
  "cout (std_hex s) = cout s"
  "cout_hex (std_hex s) = True"
  by (simp_all add: std_hex_def)

lemma cout_uint_sel [simp]:
  "calls (cout_uint n s) = calls s"
  "cout (cout_uint n s) = cout s @ show_uint (cout_hex s) (unat n)"
  "cout_hex (cout_uint n s) = cout_hex s"
  by (simp_all add: cout_uint_def)

lemma GLCheckError_pending:
  "pending w (calls s) es \<Longrightarrow>
     GLCheckError w s =
       Some \<lparr>calls = calls s @ replicate (Suc (length es)) GlGetError,
             cout = cout s @ concat (map error_line es),
             cout_hex = (cout_hex s \<or> es \<noteq> [])\<rparr>"
proof (induction es arbitrary: s)
  case Nil
  then show ?case
    by (subst GLCheckError.simps) (simp add: call_uint_def extern_call_def)
next
  case (Cons e es)
  define s' where "s' = cout_str endl (cout_str '')'' (cout_uint e (std_hex
                (cout_str ''[OpenGL Error] (0x'' (extern_call GlGetError s)))))"
  have p: "pending w (calls s') es"
    using Cons.prems by (simp add: s'_def)
  have "GLCheckError w s = GLCheckError w s'"
    using Cons.prems by (subst GLCheckError.simps) (simp add: call_uint_def s'_def)
  also have "\<dots> = Some \<lparr>calls = calls s' @ replicate (Suc (length es)) GlGetError,
             cout = cout s' @ concat (map error_line es),
             cout_hex = (cout_hex s' \<or> es \<noteq> [])\<rparr>"
    by (rule Cons.IH [OF p])
  also have "calls s' = calls s @ [GlGetError]"
    by (simp add: s'_def)
  also have "cout s' = cout s @ error_line e"
    by (simp add: s'_def error_line_def)
  also have "cout_hex s' = True"
    by (simp add: s'_def)
  finally show ?case
    by (simp add: replicate_app_Cons_same)
qed

lemma GLClearError_pending:
  "pending w (calls s) es \<Longrightarrow>
     GLClearError w s =
       Some \<lparr>calls = calls s @ replicate (Suc (length es)) GlGetError,
             cout = cout s, cout_hex = cout_hex s\<rparr>"
proof (induction es arbitrary: s)
  case Nil
  then show ?case
    by (subst GLClearError.simps) (simp add: call_uint_def extern_call_def GL_NO_ERROR_def)
next
  case (Cons e es)
  have p: "pending w (calls (extern_call GlGetError s)) es"
    using Cons.prems by simp
  have "GLClearError w s = GLClearError w (extern_call GlGetError s)"
    using Cons.prems by (subst GLClearError.simps) (simp add: call_uint_def GL_NO_ERROR_def)
  also note Cons.IH [OF p]
  finally show ?case
    by (simp add: replicate_app_Cons_same)
qed

section \<open>The claims about main and the error polling\<close>

lemma calls_if: "calls (if b then s else t) = (if b then calls s else calls t)"
  by simp

lemma main_setup_shader_calls:
  "filter shader_call (calls (main_setup w window s)) = filter shader_call (calls s)"
  by (simp add: main_setup_def Let_def call_defs case_prod_beta shader_call_def calls_if)

lemma main_unfold:
  "main w =
     (if ret_int w [GlfwInit] = 0 then Some (- 1, extern_call GlfwInit start)
      else if ret_ptr w [GlfwInit, GlfwCreateWindow 640 480 ''Hello World''] = 0
      then Some (- 1, extern_call GlfwTerminate
             (extern_call (GlfwCreateWindow 640 480 ''Hello World'') (extern_call GlfwInit start)))
      else
        let window = ret_ptr w [GlfwInit, GlfwCreateWindow 640 480 ''Hello World''];
            s3 = main_setup w window
                   (extern_call (GlfwCreateWindow 640 480 ''Hello World'') (extern_call GlfwInit start));
            source = ParseShader (file_system w) ''res/shaders/Basic.shader''
        in if VertexSource source = [] \<or> FragmentSource source = [] then Some (- 1, s3)
           else
             case CreateShader w (VertexSource source) (FragmentSource source) s3 of
               Inl e \<Rightarrow> None
             | Inr r \<Rightarrow>
                 Option.bind (render_loop w window (extern_call (GlUseProgram (fst r)) (snd r)))
                  (\<lambda>s6. Some (0, extern_call GlfwTerminate
                                    (extern_call (GlDeleteProgram (fst r)) s6))))"
  by (simp add: main_def Let_def call_defs case_prod_beta start_def split: sum.splits)

lemma bind_Some_0: "Option.bind m (\<lambda>s. Some (0 :: c_int, f s)) \<noteq> Some (- 1, t)"
  by (cases m) simp_all

lemma main_running_exit:
  "(case r of Inl e \<Rightarrow> None
    | Inr x \<Rightarrow> Option.bind (m x) (\<lambda>s. Some (0 :: c_int, f x s))) \<noteq> Some (- 1, t)"
  by (cases r) (simp_all add: bind_Some_0)

lemma main_exit_cases:
  assumes "main w = Some (- 1, s)"
  shows "filter shader_call (calls s) = []"
proof -
  let ?src = "ParseShader (file_system w) ''res/shaders/Basic.shader''"
  consider (init) "ret_int w [GlfwInit] = 0"
    | (window) "ret_int w [GlfwInit] \<noteq> 0"
        "ret_ptr w [GlfwInit, GlfwCreateWindow 640 480 ''Hello World''] = 0"
    | (source) "ret_int w [GlfwInit] \<noteq> 0"
        "ret_ptr w [GlfwInit, GlfwCreateWindow 640 480 ''Hello World''] \<noteq> 0"
        "VertexSource ?src = [] \<or> FragmentSource ?src = []"
    | (run) "ret_int w [GlfwInit] \<noteq> 0"
        "ret_ptr w [GlfwInit, GlfwCreateWindow 640 480 ''Hello World''] \<noteq> 0"
        "\<not> (VertexSource ?src = [] \<or> FragmentSource ?src = [])"
    by blast
  then show ?thesis
  proof cases
    case init
    with assms have "s = extern_call GlfwInit start"
      by (simp add: main_unfold)
    then show ?thesis
      by (simp add: start_def shader_call_def)
  next
    case window
    with assms have "s = extern_call GlfwTerminate
             (extern_call (GlfwCreateWindow 640 480 ''Hello World'') (extern_call GlfwInit start))"
      by (simp add: main_unfold)
    then show ?thesis
      by (simp add: start_def shader_call_def)
  next
    case source
    with assms have "s = main_setup w (ret_ptr w [GlfwInit, GlfwCreateWindow 640 480 ''Hello World''])
                   (extern_call (GlfwCreateWindow 640 480 ''Hello World'') (extern_call GlfwInit start))"
      by (simp add: main_unfold Let_def)
    then show ?thesis
      by (simp add: main_setup_shader_calls start_def shader_call_def)
  next
    case run
    with assms show ?thesis
      by (simp add: main_unfold Let_def main_running_exit)
  qed
qed

lemma main_fatal_source:
  assumes "ret_int w [GlfwInit] \<noteq> 0"
    and "ret_ptr w [GlfwInit, GlfwCreateWindow 640 480 ''Hello World''] \<noteq> 0"
  shows "map_option fst (main w) = Some (- 1) \<longleftrightarrow>
           VertexSource (ParseShader (file_system w) ''res/shaders/Basic.shader'') = [] \<or>
           FragmentSource (ParseShader (file_system w) ''res/shaders/Basic.shader'') = []"
proof (cases "VertexSource (ParseShader (file_system w) ''res/shaders/Basic.shader'') = [] \<or>
           FragmentSource (ParseShader (file_system w) ''res/shaders/Basic.shader'') = []")
  case True
  with assms show ?thesis
    by (simp add: main_unfold Let_def)
next
  case False
  have ne: "main w \<noteq> Some (- 1, t)" for t
    using assms False by (simp add: main_unfold Let_def main_running_exit)
  have "map_option fst (main w) \<noteq> Some (- 1)"
  proof
    assume "map_option fst (main w) = Some (- 1)"
    then obtain t where "main w = Some (- 1, t)"
      by (cases "main w") auto
    with ne show False by blast
  qed
  with False show ?thesis by simp
qed

lemma frame_pending:
  assumes "pending w (calls s @ [GlClear GL_COLOR_BUFFER_BIT]) es0"
    and "pending w (calls s @ GlClear GL_COLOR_BUFFER_BIT # replicate (Suc (length es0)) GlGetError
                      @ [GlDrawElements GL_TRIANGLES 6 GL_INT]) es1"
  shows "frame w window s =
    Some \<lparr>calls = calls s @ GlClear GL_COLOR_BUFFER_BIT # replicate (Suc (length es0)) GlGetError
                     @ GlDrawElements GL_TRIANGLES 6 GL_INT # replicate (Suc (length es1)) GlGetError
                     @ [GlfwSwapBuffers window, GlfwPollEvents],
          cout = cout s @ concat (map error_line es1),
          cout_hex = (cout_hex s \<or> es1 \<noteq> [])\<rparr>"
proof -
  define s1 where "s1 = \<lparr>calls = calls s @ GlClear GL_COLOR_BUFFER_BIT
                                # replicate (Suc (length es0)) GlGetError,
                          cout = cout s, cout_hex = cout_hex s\<rparr>"
  have a: "GLClearError w (extern_call (GlClear GL_COLOR_BUFFER_BIT) s) = Some s1"
    using GLClearError_pending [of w "extern_call (GlClear GL_COLOR_BUFFER_BIT) s" es0] assms(1)
    by (simp add: s1_def)
  have b: "GLCheckError w (extern_call (GlDrawElements GL_TRIANGLES 6 GL_INT) s1)
      = Some \<lparr>calls = calls s @ GlClear GL_COLOR_BUFFER_BIT # replicate (Suc (length es0)) GlGetError
                     @ GlDrawElements GL_TRIANGLES 6 GL_INT # replicate (Suc (length es1)) GlGetError,
          cout = cout s @ concat (map error_line es1),
          cout_hex = (cout_hex s \<or> es1 \<noteq> [])\<rparr>"
    using GLCheckError_pending [of w "extern_call (GlDrawElements GL_TRIANGLES 6 GL_INT) s1" es1]
      assms(2)
    by (simp add: s1_def)
  have "frame w window s = Some (extern_call GlfwPollEvents (extern_call (GlfwSwapBuffers window)
      \<lparr>calls = calls s @ GlClear GL_COLOR_BUFFER_BIT # replicate (Suc (length es0)) GlGetError
                     @ GlDrawElements GL_TRIANGLES 6 GL_INT # replicate (Suc (length es1)) GlGetError,
          cout = cout s @ concat (map error_line es1),
          cout_hex = (cout_hex s \<or> es1 \<noteq> [])\<rparr>))"
    by (simp add: frame_def a b)
  then show ?thesis
    by (simp add: extern_call_def)
qed

lemma GLCall_release: "\<not> DEBUG w \<Longrightarrow> GLCall w assert_GLLogCall x s = x s"
  by (simp add: GLCall_def)

text \<open>
  Claim C9, as the code has it. When the driver's error queue holds the codes \<open>es\<close>,
  \<open>GLCheckError\<close> returns after one call of \<open>glGetError\<close> per code and one more,
  having written one line per code, the code in hexadecimal, to \<open>std::cout\<close>; it
  makes no other call and changes nothing else, except that \<open>std::cout\<close> stays in
  hexadecimal mode once a code has been printed. The macro \<open>GLCall(x)\<close> is just
  \<open>x\<close> when \<open>DEBUG\<close> is not defined. The render loop does not use the macro: in
  every build, one pass of the loop clears the error queue before the draw call and
  polls and prints the errors after it.
\<close>

theorem error_polling:
  "(pending w (calls s) es \<longrightarrow>
      GLCheckError w s =
        Some \<lparr>calls = calls s @ replicate (Suc (length es)) GlGetError,
              cout = cout s @ concat (map error_line es),
              cout_hex = (cout_hex s \<or> es \<noteq> [])\<rparr>) \<and>
   (\<not> DEBUG w \<longrightarrow> GLCall w assert_GLLogCall x s = x s) \<and>
   (pending w (calls s @ [GlClear GL_COLOR_BUFFER_BIT]) es0 \<and>
    pending w (calls s @ GlClear GL_COLOR_BUFFER_BIT # replicate (Suc (length es0)) GlGetError
                 @ [GlDrawElements GL_TRIANGLES 6 GL_INT]) es1 \<longrightarrow>
      frame w window s =
        Some \<lparr>calls = calls s @ GlClear GL_COLOR_BUFFER_BIT # replicate (Suc (length es0)) GlGetError
                     @ GlDrawElements GL_TRIANGLES 6 GL_INT # replicate (Suc (length es1)) GlGetError
                     @ [GlfwSwapBuffers window, GlfwPollEvents],
              cout = cout s @ concat (map error_line es1),
              cout_hex = (cout_hex s \<or> es1 \<noteq> [])\<rparr>)"
  using GLCheckError_pending [of w s es] GLCall_release [of w assert_GLLogCall x s]
    frame_pending [of w s es0 es1 window]
  by blast

lemma show_uint_500: "show_uint True 1280 = ''500''"
  by (simp add: show_uint.simps [of True 1280] show_uint.simps [of True 80]
      show_uint.simps [of True 5] digit_char_def)

lemma release_world_pending:
  "pending release_world [GlClear GL_COLOR_BUFFER_BIT] []"
  "pending release_world [GlClear GL_COLOR_BUFFER_BIT, GlGetError,
      GlDrawElements GL_TRIANGLES 6 GL_INT] [0x500]"
  by (simp_all add: release_world_def)

text \<open>
  Claim C9 as stated fails: in a build without \<open>DEBUG\<close>, the error polling around
  the draw call is performed. Here the first frame calls \<open>glGetError\<close> three times
  and prints the error the draw call raised.
\<close>

theorem release_build_polls_counterexample:
  "\<not> DEBUG release_world \<and>
   frame release_world 4096 start =
     Some \<lparr>calls = [GlClear GL_COLOR_BUFFER_BIT, GlGetError,
                     GlDrawElements GL_TRIANGLES 6 GL_INT, GlGetError, GlGetError,
                     GlfwSwapBuffers 4096, GlfwPollEvents],
           cout = ''[OpenGL Error] (0x500)'' @ endl,
           cout_hex = True\<rparr>"
proof -
  have "\<not> DEBUG release_world"
    by (simp add: release_world_def)
  moreover have "frame release_world 4096 start =
     Some \<lparr>calls = [GlClear GL_COLOR_BUFFER_BIT, GlGetError,
                     GlDrawElements GL_TRIANGLES 6 GL_INT, GlGetError, GlGetError,
                     GlfwSwapBuffers 4096, GlfwPollEvents],
           cout = ''[OpenGL Error] (0x500)'' @ endl,
           cout_hex = True\<rparr>"
    using frame_pending [of release_world start "[]" "[0x500]" 4096] release_world_pending
    by (simp add: start_def error_line_def show_uint_500 endl_def)
  ultimately show ?thesis by simp
qed

theorem error_polling_witness:
  "pending release_world (calls \<lparr>calls = [GlClear GL_COLOR_BUFFER_BIT, GlGetError,
      GlDrawElements GL_TRIANGLES 6 GL_INT], cout = [], cout_hex = False\<rparr>) [0x500] \<and>
   GLCheckError release_world \<lparr>calls = [GlClear GL_COLOR_BUFFER_BIT, GlGetError,
      GlDrawElements GL_TRIANGLES 6 GL_INT], cout = [], cout_hex = False\<rparr> =
     Some \<lparr>calls = [GlClear GL_COLOR_BUFFER_BIT, GlGetError,
                     GlDrawElements GL_TRIANGLES 6 GL_INT, GlGetError, GlGetError],
           cout = ''[OpenGL Error] (0x500)'' @ endl, cout_hex = True\<rparr> \<and>
   \<not> DEBUG release_world \<and>
   GLCall release_world (\<lambda>s. None) Some start = Some start \<and>
   pending release_world (calls start @ [GlClear GL_COLOR_BUFFER_BIT]) [] \<and>
   frame release_world 4096 start =
     Some \<lparr>calls = [GlClear GL_COLOR_BUFFER_BIT, GlGetError,
                     GlDrawElements GL_TRIANGLES 6 GL_INT, GlGetError, GlGetError,
                     GlfwSwapBuffers 4096, GlfwPollEvents],
           cout = ''[OpenGL Error] (0x500)'' @ endl,
           cout_hex = True\<rparr>"
  using error_polling [of release_world "\<lparr>calls = [GlClear GL_COLOR_BUFFER_BIT, GlGetError,
      GlDrawElements GL_TRIANGLES 6 GL_INT], cout = [], cout_hex = False\<rparr>" "[0x500]"
      "\<lambda>s. None" Some "[]" "[0x500]" 4096]
    error_polling [of release_world start "[]" "\<lambda>s. None" Some "[]" "[0x500]" 4096]
    release_world_pending
  by (simp add: start_def error_line_def show_uint_500 release_world_def endl_def)

lemma one_section_source:
  "ParseShader (file_system one_section_world) ''res/shaders/Basic.shader''
     = \<lparr>VertexSource = ''void main() {}'' @ endl, FragmentSource = []\<rparr>"
  by (simp add: one_section_world_def ParseShader_split_lines split_lines_def loop_body_def
      endl_def read_lines_Cons read_lines_Nil)

lemma one_section_returns:
  "ret_int one_section_world h = 1" "ret_ptr one_section_world h = 4096"
  "ret_str one_section_world h = ''4.6.0''"
  "ret_uint one_section_world [GlfwInit, GlfwCreateWindow 640 480 ''Hello World'',
                                GlfwMakeContextCurrent 4096, GlewInit] = GLEW_OK"
  by (simp_all add: one_section_world_def)

lemma one_section_uint:
  "h \<noteq> [GlfwInit, GlfwCreateWindow 640 480 ''Hello World'', GlfwMakeContextCurrent 4096, GlewInit]
     \<Longrightarrow> ret_uint one_section_world h = 1"
  by (simp add: one_section_world_def)

lemma one_section_setup:
  "main_setup one_section_world 4096
     (extern_call (GlfwCreateWindow 640 480 ''Hello World'') (extern_call GlfwInit start))
   = \<lparr>calls = [GlfwInit, GlfwCreateWindow 640 480 ''Hello World'', GlfwMakeContextCurrent 4096,
               GlewInit, GlGetString GL_VERSION, GlGenBuffers 1,
               GlBindBuffer GL_ARRAY_BUFFER 1,
               GlBufferData GL_ARRAY_BUFFER 32 positions GL_STATIC_DRAW,
               GlEnableVertexAttribArray 0, GlVertexAttribPointer 0 2 GL_FLOAT GL_FALSE 8 0,
               GlGenBuffers 1, GlBindBuffer GL_ELEMENT_ARRAY_BUFFER 1,
               GlBufferData GL_ELEMENT_ARRAY_BUFFER 24 indices GL_STATIC_DRAW],
        cout = ''4.6.0'' @ endl, cout_hex = False\<rparr>"
  by (simp add: main_setup_def Let_def call_defs extern_call_def cout_str_def start_def
      one_section_returns one_section_uint)

lemma one_section_main:
  "main one_section_world =
     Some (- 1, \<lparr>calls = [GlfwInit, GlfwCreateWindow 640 480 ''Hello World'', GlfwMakeContextCurrent 4096,
               GlewInit, GlGetString GL_VERSION, GlGenBuffers 1,
               GlBindBuffer GL_ARRAY_BUFFER 1,
               GlBufferData GL_ARRAY_BUFFER 32 positions GL_STATIC_DRAW,
               GlEnableVertexAttribArray 0, GlVertexAttribPointer 0 2 GL_FLOAT GL_FALSE 8 0,
               GlGenBuffers 1, GlBindBuffer GL_ELEMENT_ARRAY_BUFFER 1,
               GlBufferData GL_ELEMENT_ARRAY_BUFFER 24 indices GL_STATIC_DRAW],
        cout = ''4.6.0'' @ endl, cout_hex = False\<rparr>)"
  by (simp add: main_unfold Let_def one_section_returns one_section_source one_section_setup)

text \<open>
  Claim C2 as stated fails: a shader file with a vertex section only gives a non-empty
  vertex source and an empty fragment source, and \<open>main\<close> returns \<open>-1\<close> at the
  check, without any call of \<open>CompileShader\<close> or \<open>CreateShader\<close>.
\<close>

theorem one_section_file_counterexample:
  "VertexSource (ParseShader (file_system one_section_world) ''res/shaders/Basic.shader'')
     = ''void main() {}'' @ endl \<and>
   FragmentSource (ParseShader (file_system one_section_world) ''res/shaders/Basic.shader'') = [] \<and>
   map_option fst (main one_section_world) = Some (- 1) \<and>
   map_option (\<lambda>r. filter shader_call (calls (snd r))) (main one_section_world) = Some []"
  by (simp add: one_section_source one_section_main shader_call_def)

text \<open>
  Claim C2, as the code has it. Once GLFW is initialised and the window is created,
  \<open>main\<close> returns \<open>-1\<close> exactly when the parsed vertex source or the parsed
  fragment source is empty: a file with only one valid section is detected by the
  caller's check, which fires when at least one of the two sources is empty.
\<close>

theorem main_source_check:
  "ret_int w [GlfwInit] \<noteq> 0 \<and>
   ret_ptr w [GlfwInit, GlfwCreateWindow 640 480 ''Hello World''] \<noteq> 0 \<longrightarrow>
     (map_option fst (main w) = Some (- 1) \<longleftrightarrow>
        VertexSource (ParseShader (file_system w) ''res/shaders/Basic.shader'') = [] \<or>
        FragmentSource (ParseShader (file_system w) ''res/shaders/Basic.shader'') = [])"
  using main_fatal_source [of w] by blast

theorem main_source_check_witness:
  "ret_int one_section_world [GlfwInit] \<noteq> 0 \<and>
   ret_ptr one_section_world [GlfwInit, GlfwCreateWindow 640 480 ''Hello World''] \<noteq> 0 \<and>
   VertexSource (ParseShader (file_system one_section_world) ''res/shaders/Basic.shader'') \<noteq> [] \<and>
   FragmentSource (ParseShader (file_system one_section_world) ''res/shaders/Basic.shader'') = [] \<and>
   map_option fst (main one_section_world) = Some (- 1)"
  using main_source_check [of one_section_world]
  by (simp add: one_section_returns one_section_source)

text \<open>
  Claim C10. Whenever \<open>main\<close> returns \<open>-1\<close>, no call that creates, builds or binds
  a shader stage or a program has been made. In particular, when GLFW is initialised,
  the window is created and one of the parsed sources is empty, \<open>main\<close> returns
  \<open>-1\<close> in the state the buffer setup left, before \<open>CreateShader\<close>.
\<close>

theorem fatal_exit_creates_no_shader:
  "(main w = Some (- 1, s) \<longrightarrow> filter shader_call (calls s) = []) \<and>
   (ret_int w [GlfwInit] \<noteq> 0 \<and>
    ret_ptr w [GlfwInit, GlfwCreateWindow 640 480 ''Hello World''] \<noteq> 0 \<and>
    (VertexSource (ParseShader (file_system w) ''res/shaders/Basic.shader'') = [] \<or>
     FragmentSource (ParseShader (file_system w) ''res/shaders/Basic.shader'') = []) \<longrightarrow>
      main w = Some (- 1, main_setup w (ret_ptr w [GlfwInit, GlfwCreateWindow 640 480 ''Hello World''])
                 (extern_call (GlfwCreateWindow 640 480 ''Hello World'')
                   (extern_call GlfwInit start))))"
  using main_exit_cases [of w s] by (simp add: main_unfold Let_def)

theorem fatal_exit_creates_no_shader_witness:
  "main one_section_world =
     Some (- 1, \<lparr>calls = [GlfwInit, GlfwCreateWindow 640 480 ''Hello World'', GlfwMakeContextCurrent 4096,
               GlewInit, GlGetString GL_VERSION, GlGenBuffers 1,
               GlBindBuffer GL_ARRAY_BUFFER 1,
               GlBufferData GL_ARRAY_BUFFER 32 positions GL_STATIC_DRAW,
               GlEnableVertexAttribArray 0, GlVertexAttribPointer 0 2 GL_FLOAT GL_FALSE 8 0,
               GlGenBuffers 1, GlBindBuffer GL_ELEMENT_ARRAY_BUFFER 1,
               GlBufferData GL_ELEMENT_ARRAY_BUFFER 24 indices GL_STATIC_DRAW],
        cout = ''4.6.0'' @ endl, cout_hex = False\<rparr>) \<and>
   filter shader_call [GlfwInit, GlfwCreateWindow 640 480 ''Hello World'', GlfwMakeContextCurrent 4096,
               GlewInit, GlGetString GL_VERSION, GlGenBuffers 1,
               GlBindBuffer GL_ARRAY_BUFFER 1,
               GlBufferData GL_ARRAY_BUFFER 32 positions GL_STATIC_DRAW,
               GlEnableVertexAttribArray 0, GlVertexAttribPointer 0 2 GL_FLOAT GL_FALSE 8 0,
               GlGenBuffers 1, GlBindBuffer GL_ELEMENT_ARRAY_BUFFER 1,
               GlBufferData GL_ELEMENT_ARRAY_BUFFER 24 indices GL_STATIC_DRAW] = []"
  using fatal_exit_creates_no_shader [of one_section_world
      "\<lparr>calls = [GlfwInit, GlfwCreateWindow 640 480 ''Hello World'', GlfwMakeContextCurrent 4096,
               GlewInit, GlGetString GL_VERSION, GlGenBuffers 1,
               GlBindBuffer GL_ARRAY_BUFFER 1,
               GlBufferData GL_ARRAY_BUFFER 32 positions GL_STATIC_DRAW,
               GlEnableVertexAttribArray 0, GlVertexAttribPointer 0 2 GL_FLOAT GL_FALSE 8 0,
               GlGenBuffers 1, GlBindBuffer GL_ELEMENT_ARRAY_BUFFER 1,
               GlBufferData GL_ELEMENT_ARRAY_BUFFER 24 indices GL_STATIC_DRAW],
        cout = ''4.6.0'' @ endl, cout_hex = False\<rparr>"]
  by (simp add: one_section_main)

end
